theory Spec2Isabelle
  imports Complex_Main "HOL-Library.Word" "HOL-Library.Monad_Syntax"
begin

section \<open>The NLC sequence-to-sequence model (nlc\_model.py)\<close>

text \<open>
  The model file builds a TensorFlow graph. The embedding below follows it operation by
  operation. A tensor is its shape together with its row-major buffer, as TensorFlow
  stores it; the rank is fixed by the graph (the placeholders are declared with two
  axes), so there is one record per rank. Floating-point tensors hold \<^typ>\<open>real\<close>
  numbers (the arithmetic is exact, rounding is not modelled); \<open>tf.int32\<close> tensors
  hold 32-bit words. An operation that TensorFlow rejects (a reshape whose sizes do not
  divide, a slice outside the tensor, an index outside a table) returns \<open>None\<close>.
\<close>

subsection \<open>Tensors of rank 2 and 3\<close>

type_synonym int32 = "32 word"

record 'a tensor2 =
  rows2 :: nat
  cols2 :: nat
  data2 :: "'a list"

record 'a tensor3 =
  dim_0 :: nat
  dim_1 :: nat
  dim_2 :: nat
  data3 :: "'a list"

definition wf2 :: "'a tensor2 \<Rightarrow> bool" where
  "wf2 t \<longleftrightarrow> length (data2 t) = rows2 t * cols2 t"

definition wf3 :: "'a tensor3 \<Rightarrow> bool" where
  "wf3 t \<longleftrightarrow> length (data3 t) = dim_0 t * dim_1 t * dim_2 t"

definition at2 :: "'a tensor2 \<Rightarrow> nat \<Rightarrow> nat \<Rightarrow> 'a" where
  "at2 t i j = data2 t ! (i * cols2 t + j)"

definition at3 :: "'a tensor3 \<Rightarrow> nat \<Rightarrow> nat \<Rightarrow> nat \<Rightarrow> 'a" where
  "at3 t i j l = data3 t ! ((i * dim_1 t + j) * dim_2 t + l)"

text \<open>A tensor given by its entries: the buffer lists them in row-major order.\<close>

definition mk2 :: "nat \<Rightarrow> nat \<Rightarrow> (nat \<Rightarrow> nat \<Rightarrow> 'a) \<Rightarrow> 'a tensor2" where
  "mk2 r c f = \<lparr>rows2 = r, cols2 = c, data2 = map (\<lambda>k. f (k div c) (k mod c)) [0..<r * c]\<rparr>"

definition mk3 :: "nat \<Rightarrow> nat \<Rightarrow> nat \<Rightarrow> (nat \<Rightarrow> nat \<Rightarrow> nat \<Rightarrow> 'a) \<Rightarrow> 'a tensor3" where
  "mk3 a b c f = \<lparr>dim_0 = a, dim_1 = b, dim_2 = c,
     data3 = map (\<lambda>k. f (k div (b * c)) (k div c mod b) (k mod c)) [0..<a * b * c]\<rparr>"

subsection \<open>TensorFlow operations used by the model\<close>

text \<open>
  \<open>tf.reshape\<close> keeps the buffer and replaces the shape. At most one requested size
  may be \<open>-1\<close>; it is inferred from the number of elements, which the product of the
  other sizes must divide (and which must be non-zero for the inference). Without a
  \<open>-1\<close> the product of the sizes must be the number of elements.
\<close>

definition infer_shape :: "int list \<Rightarrow> nat \<Rightarrow> nat list option" where
  "infer_shape dims n =
     (if list_ex (\<lambda>d. d < - 1) dims \<or> 1 < count_list dims (- 1) then None
      else let known = prod_list (map nat (filter (\<lambda>d. d \<noteq> - 1) dims)) in
        if count_list dims (- 1) = 1
        then (if known = 0 \<or> n mod known \<noteq> 0 then None
              else Some (map (\<lambda>d. if d = - 1 then n div known else nat d) dims))
        else (if known = n then Some (map nat dims) else None))"

definition tf_reshape2 :: "int \<Rightarrow> int \<Rightarrow> 'a list \<Rightarrow> 'a tensor2 option" where
  "tf_reshape2 d0 d1 xs =
     (case infer_shape [d0, d1] (length xs) of
        Some [a, b] \<Rightarrow> Some \<lparr>rows2 = a, cols2 = b, data2 = xs\<rparr>
      | _ \<Rightarrow> None)"

definition tf_reshape3 :: "int \<Rightarrow> int \<Rightarrow> int \<Rightarrow> 'a list \<Rightarrow> 'a tensor3 option" where
  "tf_reshape3 d0 d1 d2 xs =
     (case infer_shape [d0, d1, d2] (length xs) of
        Some [a, b, c] \<Rightarrow> Some \<lparr>dim_0 = a, dim_1 = b, dim_2 = c, data3 = xs\<rparr>
      | _ \<Rightarrow> None)"

text \<open>\<open>tf.transpose\<close> of a matrix, and with \<open>perm=[1, 0, 2]\<close> of a rank-3 tensor.\<close>

definition tf_transpose :: "'a tensor2 \<Rightarrow> 'a tensor2" where
  "tf_transpose t = mk2 (cols2 t) (rows2 t) (\<lambda>j i. at2 t i j)"

definition tf_transpose_102 :: "'a tensor3 \<Rightarrow> 'a tensor3" where
  "tf_transpose_102 t = mk3 (dim_1 t) (dim_0 t) (dim_2 t) (\<lambda>j i l. at3 t i j l)"

subsection \<open>Hyperparameters, variables and batches\<close>

text \<open>
  The constructor arguments that the graph keeps (\<open>keep_prob\<close> is \<open>1 - dropout\<close>), the
  variables of the session (the two non-trainable scalars, the trainable tensors, each
  a flat buffer, and the optimizer's own slots), and the four arrays fed to the
  placeholders of lines 73 to 76, each of shape (time, batch).
\<close>

record nlc_config =
  vocab_size :: nat
  size_units :: nat
  num_layers :: nat
  max_gradient_norm :: real
  batch_size :: nat
  learning_rate_decay_factor :: real
  keep_prob :: real
  forward_only :: bool

record 'o nlc_vars =
  learning_rate :: real
  global_step :: int
  trainable :: "real list list"
  opt_slots :: 'o

record nlc_batch =
  source_tokens :: "int32 tensor2"
  source_mask :: "int32 tensor2"
  target_tokens :: "int32 tensor2"
  target_mask :: "int32 tensor2"

text \<open>
  \<open>learning_rate_decay_op\<close> (line 70) assigns \<open>learning_rate * learning_rate_decay_factor\<close>
  to the learning-rate variable; running the operation once performs one assignment.
\<close>

definition learning_rate_decay_op :: "nlc_config \<Rightarrow> 'o nlc_vars \<Rightarrow> 'o nlc_vars" where
  "learning_rate_decay_op cfg st =
     st\<lparr>learning_rate := learning_rate st * learning_rate_decay_factor cfg\<rparr>"

subsection \<open>Masks and lengths\<close>

text \<open>
  A mask has shape (time, batch). \<open>column m j\<close> is the mask of example \<open>j\<close> along
  time; \<open>tf.reduce_sum(mask, reduction_indices=0)\<close> adds every column up, in the
  32-bit arithmetic of \<open>tf.int32\<close>.
\<close>

definition column :: "'a tensor2 \<Rightarrow> nat \<Rightarrow> 'a list" where
  "column t j = map (\<lambda>i. at2 t i j) [0..<rows2 t]"

definition reduce_sum_0 :: "('a::monoid_add) tensor2 \<Rightarrow> 'a list" where
  "reduce_sum_0 t = map (\<lambda>j. sum_list (column t j)) [0..<cols2 t]"

text \<open>
  The data model's invariant on a mask: every column is a run of ones followed by
  zeros only. The number of leading ones is the example's number of valid positions.
\<close>

definition leading_ones :: "int32 list \<Rightarrow> nat" where
  "leading_ones col = length (takeWhile (\<lambda>x. x = 1) col)"

definition prefix_of_ones :: "int32 list \<Rightarrow> bool" where
  "prefix_of_ones col \<longleftrightarrow> list_all (\<lambda>x. x = 0) (dropWhile (\<lambda>x. x = 1) col)"

definition valid_mask :: "int32 tensor2 \<Rightarrow> bool" where
  "valid_mask m \<longleftrightarrow> wf2 m \<and> list_all (\<lambda>j. prefix_of_ones (column m j)) [0..<cols2 m]"

text \<open>Lines 77 and 78.\<close>

definition source_length :: "nlc_batch \<Rightarrow> int32 list" where
  "source_length batch = reduce_sum_0 (source_mask batch)"

definition target_length :: "nlc_batch \<Rightarrow> int32 list" where
  "target_length batch = reduce_sum_0 (target_mask batch)"

subsection \<open>\<open>downscale\<close> (lines 158 to 173)\<close>

text \<open>
  The mask half of \<open>downscale\<close>, operation by operation: \<open>tf.cast(_, tf.bool)\<close> is
  true on non-zero entries, \<open>tf.reduce_any\<close> along axis 1 is the disjunction of each
  row, \<open>tf.to_int32\<close> maps true to 1 and false to 0.
\<close>

definition tf_cast_bool :: "int32 tensor2 \<Rightarrow> bool tensor2" where
  "tf_cast_bool t = \<lparr>rows2 = rows2 t, cols2 = cols2 t, data2 = map (\<lambda>x. x \<noteq> 0) (data2 t)\<rparr>"

definition tf_reduce_any_1 :: "bool tensor2 \<Rightarrow> bool list" where
  "tf_reduce_any_1 t = map (\<lambda>i. list_ex (\<lambda>j. at2 t i j) [0..<cols2 t]) [0..<rows2 t]"

definition tf_to_int32 :: "bool list \<Rightarrow> int32 list" where
  "tf_to_int32 bs = map (\<lambda>b. if b then 1 else 0) bs"

definition downscale_mask :: "nlc_config \<Rightarrow> int32 tensor2 \<Rightarrow> int32 tensor2 option" where
  "downscale_mask cfg mask0 = do {
     let mask1 = tf_transpose mask0;
     mask2 \<leftarrow> tf_reshape2 (- 1) 2 (data2 mask1);
     let mask3 = tf_cast_bool mask2;
     let mask4 = tf_reduce_any_1 mask3;
     let mask5 = tf_to_int32 mask4;
     mask6 \<leftarrow> tf_reshape2 (int (batch_size cfg)) (- 1) mask5;
     Some (tf_transpose mask6)
   }"

text \<open>
  \<open>rnn_cell.linear(args, output_size, True, 1.0)\<close> multiplies its argument by the
  variable \<open>Matrix\<close> and adds the variable \<open>Bias\<close>. The variables are created with
  the shapes (input width, output size) and (output size), which \<open>wf_linear\<close> records;
  their values are trainable, so they are inputs of the model.
\<close>

record linear_params =
  Matrix :: "real tensor2"
  Bias :: "real list"

definition wf_linear :: "linear_params \<Rightarrow> nat \<Rightarrow> nat \<Rightarrow> bool" where
  "wf_linear p n_in n_out \<longleftrightarrow>
     wf2 (Matrix p) \<and> rows2 (Matrix p) = n_in \<and> cols2 (Matrix p) = n_out \<and> length (Bias p) = n_out"

definition linear :: "linear_params \<Rightarrow> real tensor2 \<Rightarrow> real tensor2" where
  "linear p x = mk2 (rows2 x) (cols2 (Matrix p))
     (\<lambda>i out. sum_list (map (\<lambda>k. at2 x i k * at2 (Matrix p) k out) [0..<cols2 x]) + Bias p ! out)"

text \<open>An elementwise function on a rank-3 tensor (\<open>tanh\<close> here).\<close>

definition map3 :: "('a \<Rightarrow> 'b) \<Rightarrow> 'a tensor3 \<Rightarrow> 'b tensor3" where
  "map3 f t = \<lparr>dim_0 = dim_0 t, dim_1 = dim_1 t, dim_2 = dim_2 t, data3 = map f (data3 t)\<rparr>"

text \<open>
  The feature half of \<open>downscale\<close>. Line 160 on its own is \<open>downscale_pairs\<close>: the
  input is made batch-major and regrouped in rows of \<open>2 * size\<close> numbers.
\<close>

definition downscale_pairs :: "nlc_config \<Rightarrow> real tensor3 \<Rightarrow> real tensor2 option" where
  "downscale_pairs cfg inp =
     tf_reshape2 (- 1) (2 * int (size_units cfg)) (data3 (tf_transpose_102 inp))"

definition downscale_inp :: "nlc_config \<Rightarrow> linear_params \<Rightarrow> real tensor3 \<Rightarrow> real tensor3 option" where
  "downscale_inp cfg p inp = do {
     inp2d \<leftarrow> downscale_pairs cfg inp;
     let out2d = linear p inp2d;
     out3d \<leftarrow> tf_reshape3 (int (batch_size cfg)) (- 1) (int (size_units cfg)) (data2 out2d);
     let out3d = tf_transpose_102 out3d;
     Some (map3 tanh out3d)
   }"

definition downscale ::
  "nlc_config \<Rightarrow> linear_params \<Rightarrow> real tensor3 \<Rightarrow> int32 tensor2
     \<Rightarrow> (real tensor3 \<times> int32 tensor2) option" where
  "downscale cfg p inp mask0 = do {
     out \<leftarrow> downscale_inp cfg p inp;
     mask7 \<leftarrow> downscale_mask cfg mask0;
     Some (out, mask7)
   }"

text \<open>
  For stating what \<open>downscale\<close> computes: entry \<open>k\<close> of the concatenation of the
  feature vectors of example \<open>b\<close> at timesteps \<open>2j\<close> and \<open>2j + 1\<close>, and the feature that
  the projection and \<open>tanh\<close> make of that concatenation.
\<close>

definition pooled_pair :: "real tensor3 \<Rightarrow> nat \<Rightarrow> nat \<Rightarrow> nat \<Rightarrow> nat \<Rightarrow> real" where
  "pooled_pair inp n j b k = (if k < n then at3 inp (2 * j) b k else at3 inp (2 * j + 1) b (k - n))"

definition pooled_feature ::
  "linear_params \<Rightarrow> real tensor3 \<Rightarrow> nat \<Rightarrow> nat \<Rightarrow> nat \<Rightarrow> nat \<Rightarrow> real" where
  "pooled_feature p inp n j b out =
     tanh (sum_list (map (\<lambda>k. pooled_pair inp n j b k * at2 (Matrix p) k out) [0..<2 * n])
           + Bias p ! out)"

subsection \<open>Broadcasting and reductions\<close>

text \<open>
  An elementwise binary operation broadcasts its operands: along every axis the two
  sizes are equal or one of them is 1, and the operand of size 1 is read at index 0.
  A rank-2 operand next to a rank-3 operand counts as having a leading axis of size 1.
\<close>

definition bdim :: "nat \<Rightarrow> nat \<Rightarrow> nat option" where
  "bdim a b = (if a = b then Some a else if a = 1 then Some b else if b = 1 then Some a else None)"

definition bidx :: "nat \<Rightarrow> nat \<Rightarrow> nat" where
  "bidx d i = (if d = 1 then 0 else i)"

definition tf_binop3 ::
  "(real \<Rightarrow> real \<Rightarrow> real) \<Rightarrow> real tensor3 \<Rightarrow> real tensor3 \<Rightarrow> real tensor3 option" where
  "tf_binop3 f x y = do {
     a \<leftarrow> bdim (dim_0 x) (dim_0 y);
     b \<leftarrow> bdim (dim_1 x) (dim_1 y);
     c \<leftarrow> bdim (dim_2 x) (dim_2 y);
     Some (mk3 a b c (\<lambda>i j l.
       f (at3 x (bidx (dim_0 x) i) (bidx (dim_1 x) j) (bidx (dim_2 x) l))
         (at3 y (bidx (dim_0 y) i) (bidx (dim_1 y) j) (bidx (dim_2 y) l))))
   }"

definition expand_dims0 :: "'a tensor2 \<Rightarrow> 'a tensor3" where
  "expand_dims0 t = \<lparr>dim_0 = 1, dim_1 = rows2 t, dim_2 = cols2 t, data3 = data2 t\<rparr>"

text \<open>
  \<open>tf.reduce_sum\<close> and \<open>tf.reduce_max\<close> along one axis; with \<open>keep_dims\<close> the reduced
  axis stays, with size 1. The maximum over an empty axis is a value nobody reads: the
  tensor it is subtracted from then has no entries.
\<close>

definition tf_reduce_sum_2_keep :: "real tensor3 \<Rightarrow> real tensor3" where
  "tf_reduce_sum_2_keep t =
     mk3 (dim_0 t) (dim_1 t) 1 (\<lambda>i j _. sum_list (map (\<lambda>l. at3 t i j l) [0..<dim_2 t]))"

definition tf_reduce_sum_0_keep :: "real tensor3 \<Rightarrow> real tensor3" where
  "tf_reduce_sum_0_keep t =
     mk3 1 (dim_1 t) (dim_2 t) (\<lambda>_ j l. sum_list (map (\<lambda>i. at3 t i j l) [0..<dim_0 t]))"


definition max_list :: "real list \<Rightarrow> real" where
  "max_list xs = (case xs of [] \<Rightarrow> 0 | x # ys \<Rightarrow> fold max ys x)"

definition tf_reduce_max_0_keep :: "real tensor3 \<Rightarrow> real tensor3" where
  "tf_reduce_max_0_keep t =
     mk3 1 (dim_1 t) (dim_2 t) (\<lambda>_ j l. max_list (map (\<lambda>i. at3 t i j l) [0..<dim_0 t]))"


subsection \<open>\<open>GRUCellAttn\<close> (lines 36 to 58)\<close>

text \<open>
  Lines 51 to 53 of \<open>__call__\<close>: the scores \<open>reduce_sum(phi_hs * gamma_h, 2)\<close>, the
  exponential of their difference to the maximum along the encoder-time axis, and the
  division by \<open>1e-6\<close> plus the sum along that axis. \<open>score\<close> names one score, for
  stating results.
\<close>

definition attn_weights :: "real tensor3 \<Rightarrow> real tensor2 \<Rightarrow> real tensor3 option" where
  "attn_weights phi gamma_h = do {
     prod \<leftarrow> tf_binop3 (*) phi (expand_dims0 gamma_h);
     let weights0 = tf_reduce_sum_2_keep prod;
     diff \<leftarrow> tf_binop3 (-) weights0 (tf_reduce_max_0_keep weights0);
     let weights1 = map3 exp diff;
     tf_binop3 (/) weights1 (map3 (\<lambda>s. 1 / 10 ^ 6 + s) (tf_reduce_sum_0_keep weights1))
   }"

definition score :: "real tensor3 \<Rightarrow> real tensor2 \<Rightarrow> nat \<Rightarrow> nat \<Rightarrow> real" where
  "score phi gamma_h t b = sum_list (map (\<lambda>l. at3 phi t b l * at2 gamma_h b l) [0..<dim_2 phi])"

text \<open>
  The base class \<open>rnn_cell.GRUCell\<close> belongs to TensorFlow. On a batch it computes, for
  every row on its own, the gates \<open>r, u = sigmoid(linear([inputs, state]))\<close>, the
  candidate \<open>c = tanh(linear([inputs, r * state]))\<close> and the new state
  \<open>u * state + (1 - u) * c\<close>, which is also its output. Its two \<open>linear\<close> maps are
  trainable. A cell maps a batch of inputs and a batch of states to an output and a
  new state.
\<close>

definition sigmoid :: "real \<Rightarrow> real" where
  "sigmoid x = 1 / (1 + exp (- x))"



definition row :: "'a tensor2 \<Rightarrow> nat \<Rightarrow> 'a list" where
  "row t i = map (\<lambda>j. at2 t i j) [0..<cols2 t]"

definition zeros2 :: "nat \<Rightarrow> nat \<Rightarrow> real tensor2" where
  "zeros2 r c = mk2 r c (\<lambda>_ _. 0)"

type_synonym rnn_cell = "real tensor2 \<Rightarrow> real tensor2 \<Rightarrow> (real tensor2 \<times> real tensor2) option"

record gru_params =
  Gates :: linear_params
  Candidate :: linear_params

definition linear_row :: "linear_params \<Rightarrow> real list \<Rightarrow> real list" where
  "linear_row p x = map (\<lambda>out. sum_list (map (\<lambda>k. x ! k * at2 (Matrix p) k out) [0..<length x])
                                + Bias p ! out) [0..<cols2 (Matrix p)]"

definition GRUCell_row :: "gru_params \<Rightarrow> nat \<Rightarrow> real list \<Rightarrow> real list \<Rightarrow> real list" where
  "GRUCell_row p n x h =
     (let ru = map sigmoid (linear_row (Gates p) (x @ h));
          r = take n ru;
          u = drop n ru;
          c = map tanh (linear_row (Candidate p) (x @ map2 (*) r h))
      in map (\<lambda>l. u ! l * h ! l + (1 - u ! l) * c ! l) [0..<n])"

definition GRUCell_call :: "gru_params \<Rightarrow> nat \<Rightarrow> rnn_cell" where
  "GRUCell_call p n inputs state =
     (let new_h = mk2 (rows2 inputs) n (\<lambda>b l. GRUCell_row p n (row inputs b) (row state b) ! l)
      in Some (new_h, new_h))"




subsection \<open>\<open>rnn.dynamic_rnn\<close> and \<open>bidirectional_rnn\<close> (lines 175 to 191)\<close>

text \<open>
  \<open>dynamic_rnn\<close> with \<open>time_major=True\<close> starts from the zero state and calls the cell
  once per timestep on the whole batch. For an example whose \<open>sequence_length\<close> is at
  most the current time the output is zero and the state is copied through; the other
  examples take the output and state the cell computed. \<open>sequence_length\<close> must have
  one entry per example.
\<close>

definition time_slice :: "'a tensor3 \<Rightarrow> nat \<Rightarrow> 'a tensor2" where
  "time_slice x t = mk2 (dim_1 x) (dim_2 x) (\<lambda>b l. at3 x t b l)"

definition stack :: "nat \<Rightarrow> nat \<Rightarrow> 'a tensor2 list \<Rightarrow> 'a tensor3" where
  "stack b n xs = mk3 (length xs) b n (\<lambda>t i l. at2 (xs ! t) i l)"

definition rnn_step ::
  "rnn_cell \<Rightarrow> int32 list \<Rightarrow> nat \<Rightarrow> real tensor2 \<Rightarrow> real tensor2
     \<Rightarrow> (real tensor2 \<times> real tensor2) option" where
  "rnn_step cell sequence_length time input_t state = do {
     (new_output, new_state) \<leftarrow> cell input_t state;
     let copy_cond = (\<lambda>b. sint (sequence_length ! b) \<le> int time);
     Some (mk2 (rows2 new_output) (cols2 new_output)
             (\<lambda>b l. if copy_cond b then 0 else at2 new_output b l),
           mk2 (rows2 new_state) (cols2 new_state)
             (\<lambda>b l. if copy_cond b then at2 state b l else at2 new_state b l))
   }"

fun rnn_loop ::
  "rnn_cell \<Rightarrow> int32 list \<Rightarrow> nat \<Rightarrow> real tensor2 list \<Rightarrow> real tensor2
     \<Rightarrow> (real tensor2 list \<times> real tensor2) option" where
  "rnn_loop cell sequence_length time [] state = Some ([], state)"
| "rnn_loop cell sequence_length time (x # xs) state = do {
     (output, state') \<leftarrow> rnn_step cell sequence_length time x state;
     (outputs, final) \<leftarrow> rnn_loop cell sequence_length (Suc time) xs state';
     Some (output # outputs, final)
   }"

definition dynamic_rnn ::
  "rnn_cell \<Rightarrow> nat \<Rightarrow> real tensor3 \<Rightarrow> int32 list \<Rightarrow> (real tensor3 \<times> real tensor2) option" where
  "dynamic_rnn cell n inputs sequence_length =
     (if length sequence_length \<noteq> dim_1 inputs then None
      else do {
        (outputs, final) \<leftarrow> rnn_loop cell sequence_length 0
           (map (time_slice inputs) [0..<dim_0 inputs]) (zeros2 (dim_1 inputs) n);
        Some (stack (dim_1 inputs) n outputs, final)
      })"

text \<open>
  \<open>tf.reverse_sequence(x, seq_lengths, seq_dim=0, batch_dim=1)\<close> reverses, for every
  example, the first \<open>seq_lengths\<close> entries along time and leaves the rest in place; a
  length that is negative or exceeds the time dimension is rejected.
\<close>

definition tf_to_int64 :: "int32 list \<Rightarrow> int list" where
  "tf_to_int64 xs = map sint xs"

definition tf_reverse_sequence :: "'a tensor3 \<Rightarrow> int list \<Rightarrow> 'a tensor3 option" where
  "tf_reverse_sequence x seq_lengths =
     (if length seq_lengths \<noteq> dim_1 x
         \<or> list_ex (\<lambda>n. n < 0 \<or> int (dim_0 x) < n) seq_lengths then None
      else Some (mk3 (dim_0 x) (dim_1 x) (dim_2 x) (\<lambda>t b l.
        (let col = map (\<lambda>i. at3 x i b l) [0..<dim_0 x];
             n = nat (seq_lengths ! b)
         in (rev (take n col) @ drop n col) ! t))))"

definition tf_add3 :: "real tensor3 \<Rightarrow> real tensor3 \<Rightarrow> real tensor3 option" where
  "tf_add3 x y = tf_binop3 (+) x y"

definition tf_add2 :: "real tensor2 \<Rightarrow> real tensor2 \<Rightarrow> real tensor2 option" where
  "tf_add2 x y = (if rows2 x = rows2 y \<and> cols2 x = cols2 y
     then Some (mk2 (rows2 x) (cols2 x) (\<lambda>i j. at2 x i j + at2 y i j)) else None)"

text \<open>
  \<open>bidirectional_rnn\<close> runs its cell twice over the same inputs, under the variable
  scopes \<open>_FW\<close> and \<open>_BW\<close>, so the two runs have weights of their own: \<open>cell_fw\<close> and
  \<open>cell_bw\<close>.
\<close>

definition bidirectional_rnn ::
  "rnn_cell \<Rightarrow> rnn_cell \<Rightarrow> nat \<Rightarrow> real tensor3 \<Rightarrow> int32 list
     \<Rightarrow> (real tensor3 \<times> real tensor2) option" where
  "bidirectional_rnn cell_fw cell_bw n inputs lengths = do {
     (output_fw, output_state_fw) \<leftarrow> dynamic_rnn cell_fw n inputs lengths;
     (output_bw, output_state_bw) \<leftarrow> dynamic_rnn cell_bw n inputs lengths;
     output_bw' \<leftarrow> tf_reverse_sequence output_bw (tf_to_int64 lengths);
     outputs \<leftarrow> tf_add3 output_fw output_bw';
     output_state \<leftarrow> tf_add2 output_state_fw output_state_bw;
     Some (outputs, output_state)
   }"

subsection \<open>The forward pass of \<open>NLCModel\<close>\<close>



text \<open>
  The trainable variables by their scopes: the embeddings (lines 100 and 101), for
  every encoder layer the two recurrences and the projection of \<open>downscale\<close>, the plain
  decoder layers, the attention cell, and the projection to the vocabulary. \<open>wf_params\<close>
  records the shapes the constructor gives them.
\<close>

record nlc_params =
  L_enc :: "real tensor2"
  L_dec :: "real tensor2"
  EncoderCell_FW :: "nat \<Rightarrow> gru_params"
  EncoderCell_BW :: "nat \<Rightarrow> gru_params"
  Downscale :: "nat \<Rightarrow> linear_params"
  DecoderCell :: "nat \<Rightarrow> gru_params"
  DecoderAttnCell :: gru_params
  Attn1_linear :: linear_params
  Attn2_linear :: linear_params
  AttnConcat_linear :: linear_params
  Logistic :: linear_params








text \<open>
  \<open>setup_loss\<close> (lines 139 to 153). \<open>tf.slice(x, [1, 0], [-1, -1])\<close> drops the first
  row and needs one to drop; \<open>tf.pad(x, [[0, 1], [0, 0]])\<close> appends a row of zeros;
  \<open>sparse_softmax_cross_entropy_with_logits\<close> is, per row, the logarithm of the sum of
  the exponentials of the logits minus the logit of the label, and rejects a label
  outside the logits.
\<close>

definition tf_softmax :: "real tensor2 \<Rightarrow> real tensor2" where
  "tf_softmax logits = mk2 (rows2 logits) (cols2 logits)
     (\<lambda>i k. exp (at2 logits i k) / sum_list (map (\<lambda>j. exp (at2 logits i j)) [0..<cols2 logits]))"

definition tf_slice_from_row1 :: "'a tensor2 \<Rightarrow> 'a tensor2 option" where
  "tf_slice_from_row1 x =
     (if rows2 x < 1 then None
      else Some (mk2 (rows2 x - 1) (cols2 x) (\<lambda>i j. at2 x (i + 1) j)))"

definition tf_pad_row_after :: "('a::zero) tensor2 \<Rightarrow> 'a tensor2" where
  "tf_pad_row_after x = mk2 (rows2 x + 1) (cols2 x) (\<lambda>i j. if i < rows2 x then at2 x i j else 0)"

definition sparse_softmax_cross_entropy_with_logits ::
  "real tensor2 \<Rightarrow> int32 list \<Rightarrow> real list option" where
  "sparse_softmax_cross_entropy_with_logits logits labels =
     (if length labels \<noteq> rows2 logits
         \<or> list_ex (\<lambda>y. sint y < 0 \<or> int (cols2 logits) \<le> sint y) labels then None
      else Some (map (\<lambda>i. ln (sum_list (map (\<lambda>j. exp (at2 logits i j)) [0..<cols2 logits]))
                           - at2 logits i (nat (sint (labels ! i)))) [0..<rows2 logits]))"

definition tf_to_float :: "int32 list \<Rightarrow> real list" where
  "tf_to_float xs = map (\<lambda>x. real_of_int (sint x)) xs"

definition tf_mul1 :: "real list \<Rightarrow> real list \<Rightarrow> real list option" where
  "tf_mul1 xs ys = (if length xs = length ys then Some (map2 (*) xs ys) else None)"

definition setup_loss ::
  "nlc_config \<Rightarrow> linear_params \<Rightarrow> real tensor3 \<Rightarrow> nlc_batch \<Rightarrow> (real \<times> real tensor3) option" where
  "setup_loss cfg logistic decoder_output batch = do {
     do2d \<leftarrow> tf_reshape2 (- 1) (int (size_units cfg)) (data3 decoder_output);
     let logits2d = linear logistic do2d;
     let outputs2d = tf_softmax logits2d;
     outputs \<leftarrow> tf_reshape3 (- 1) (int (batch_size cfg)) (int (vocab_size cfg)) (data2 outputs2d);
     targets_no_GO \<leftarrow> tf_slice_from_row1 (target_tokens batch);
     masks_no_GO \<leftarrow> tf_slice_from_row1 (target_mask batch);
     let labels1d = data2 (tf_pad_row_after targets_no_GO);
     let mask1d = data2 (tf_pad_row_after masks_no_GO);
     xent \<leftarrow> sparse_softmax_cross_entropy_with_logits logits2d labels1d;
     losses1d \<leftarrow> tf_mul1 xent (tf_to_float mask1d);
     losses2d \<leftarrow> tf_reshape2 (- 1) (int (batch_size cfg)) losses1d;
     Some (sum_list (data2 losses2d) / real (batch_size cfg), outputs)
   }"


subsection \<open>Gradient clipping (\<open>tf.global_norm\<close>, \<open>tf.clip_by_global_norm\<close>)\<close>

text \<open>
  \<open>tf.gradients\<close> returns one entry per variable, \<open>None\<close> for a variable the loss does
  not depend on; both functions skip such entries. \<open>tf.global_norm\<close> is the square root
  of twice the sum of the tensors' \<open>l2_loss\<close> (half the sum of squares).
  \<open>tf.clip_by_global_norm\<close> multiplies every tensor by
  \<open>clip_norm / max(global_norm, clip_norm)\<close> and also returns the norm before clipping.
\<close>

definition l2_loss :: "real list \<Rightarrow> real" where
  "l2_loss xs = sum_list (map (\<lambda>x. x * x) xs) / 2"

definition global_norm :: "real list option list \<Rightarrow> real" where
  "global_norm ts = sqrt (sum_list (map l2_loss (List.map_filter id ts)) * 2)"

definition clip_by_global_norm ::
  "real list option list \<Rightarrow> real \<Rightarrow> real list option list \<times> real" where
  "clip_by_global_norm t_list clip_norm =
     (let use_norm = global_norm t_list;
          scale = clip_norm / max use_norm clip_norm
      in (map (map_option (map (\<lambda>v. v * scale))) t_list, use_norm))"

subsection \<open>The graph, the session and the two step functions\<close>

text \<open>
  What \<open>__init__\<close> leaves in the object for the step functions: the forward tensors
  \<open>self.losses\<close> and \<open>self.outputs\<close> (the two components of \<open>nlc_forward\<close>, once the
  list of variables is read by scope and the dropout draws are fixed) as functions of
  the trainable variables and the fed batch, the
  gradients \<open>tf.gradients(self.losses, params)\<close>, and the update rule of the
  \<open>AdamOptimizer\<close>, which takes the learning rate, the (gradient, variable) pairs and
  its slots and returns the new variables and slots.
\<close>

record 'o nlc_graph =
  losses_of :: "real list list \<Rightarrow> nlc_batch \<Rightarrow> real option"
  outputs_of :: "real list list \<Rightarrow> nlc_batch \<Rightarrow> real tensor3 option"
  gradients_of :: "real list list \<Rightarrow> nlc_batch \<Rightarrow> real list option list"
  adam_apply :: "real \<Rightarrow> (real list option \<times> real list) list \<Rightarrow> 'o \<Rightarrow> real list list \<times> 'o"

datatype fetch = Updates | Gradient_norm | Losses | Param_norm | Outputs

datatype fetched = No_value | Scalar real | Tensor "real tensor3"

text \<open>Lines 89 to 92: the clipped gradients, their norm and the norm of the variables.\<close>

definition clipped_gradients ::
  "'o nlc_graph \<Rightarrow> nlc_config \<Rightarrow> 'o nlc_vars \<Rightarrow> nlc_batch \<Rightarrow> real list option list" where
  "clipped_gradients g cfg st batch =
     fst (clip_by_global_norm (gradients_of g (trainable st) batch) (max_gradient_norm cfg))"

definition gradient_norm :: "'o nlc_graph \<Rightarrow> nlc_config \<Rightarrow> 'o nlc_vars \<Rightarrow> nlc_batch \<Rightarrow> real" where
  "gradient_norm g cfg st batch = global_norm (clipped_gradients g cfg st batch)"

definition param_norm :: "'o nlc_vars \<Rightarrow> real" where
  "param_norm st = global_norm (map Some (trainable st))"

text \<open>
  One \<open>session.run\<close> evaluates every fetched tensor on the variables as they are before
  the step and performs the assignments of the fetched operations. Only \<open>self.updates\<close>
  (line 93: \<open>apply_gradients\<close> with \<open>global_step\<close>) assigns: it replaces the trainable
  variables and the optimizer slots and adds one to the global step. A fetch that
  needs the loss fails when the forward pass fails, and then the whole run fails.
\<close>

fun fetch_value ::
  "'o nlc_graph \<Rightarrow> nlc_config \<Rightarrow> 'o nlc_vars \<Rightarrow> nlc_batch \<Rightarrow> fetch \<Rightarrow> fetched option" where
  "fetch_value g cfg st batch Updates =
     map_option (\<lambda>_. No_value) (losses_of g (trainable st) batch)"
| "fetch_value g cfg st batch Gradient_norm =
     map_option (\<lambda>_. Scalar (gradient_norm g cfg st batch)) (losses_of g (trainable st) batch)"
| "fetch_value g cfg st batch Losses = map_option Scalar (losses_of g (trainable st) batch)"
| "fetch_value g cfg st batch Param_norm = Some (Scalar (param_norm st))"
| "fetch_value g cfg st batch Outputs = map_option Tensor (outputs_of g (trainable st) batch)"

fun fetch_effect ::
  "'o nlc_graph \<Rightarrow> nlc_config \<Rightarrow> 'o nlc_vars \<Rightarrow> nlc_batch \<Rightarrow> fetch \<Rightarrow> 'o nlc_vars \<Rightarrow> 'o nlc_vars" where
  "fetch_effect g cfg st0 batch Updates st =
     (let (p, slots) = adam_apply g (learning_rate st0)
                         (zip (clipped_gradients g cfg st0 batch) (trainable st0)) (opt_slots st0)
      in st\<lparr>trainable := p, opt_slots := slots, global_step := global_step st + 1\<rparr>)"
| "fetch_effect g cfg st0 batch _ st = st"

definition session_run ::
  "'o nlc_graph \<Rightarrow> nlc_config \<Rightarrow> fetch list \<Rightarrow> nlc_batch \<Rightarrow> 'o nlc_vars
     \<Rightarrow> (fetched list \<times> 'o nlc_vars) option" where
  "session_run g cfg output_feed input_feed st =
     (case those (map (fetch_value g cfg st input_feed) output_feed) of
        None \<Rightarrow> None
      | Some outputs \<Rightarrow> Some (outputs, fold (fetch_effect g cfg st input_feed) output_feed st))"


definition test ::
  "'o nlc_graph \<Rightarrow> nlc_config \<Rightarrow> nlc_batch \<Rightarrow> 'o nlc_vars
     \<Rightarrow> ((real \<times> real tensor3) \<times> 'o nlc_vars) option" where
  "test g cfg batch st =
     (case session_run g cfg [Losses, Outputs] batch st of
          Some ([Scalar l, Tensor out], st') \<Rightarrow> Some ((l, out), st')
        | _ \<Rightarrow> None)"

subsection \<open>Notions for stating the claims\<close>

text \<open>
  The loss in the words of the specification: the targets and the mask shifted left by
  one timestep and padded with a zero row, the logits of one position, the cross-entropy
  of one position, and the sum of the masked cross-entropies divided by the batch size.
\<close>

definition shift_left_pad :: "int32 tensor2 \<Rightarrow> nat \<Rightarrow> nat \<Rightarrow> int32" where
  "shift_left_pad x t b = (if t + 1 < rows2 x then at2 x (t + 1) b else 0)"

definition logit :: "linear_params \<Rightarrow> real tensor3 \<Rightarrow> nat \<Rightarrow> nat \<Rightarrow> nat \<Rightarrow> real" where
  "logit p d t b k =
     sum_list (map (\<lambda>l. at3 d t b l * at2 (Matrix p) l k) [0..<dim_2 d]) + Bias p ! k"

definition cross_entropy :: "(nat \<Rightarrow> real) \<Rightarrow> nat \<Rightarrow> nat \<Rightarrow> real" where
  "cross_entropy z v y = ln (sum_list (map (\<lambda>j. exp (z j)) [0..<v])) - z y"

definition masked_loss :: "nlc_config \<Rightarrow> linear_params \<Rightarrow> real tensor3 \<Rightarrow> nlc_batch \<Rightarrow> real" where
  "masked_loss cfg p d batch =
     sum_list (map (\<lambda>t. sum_list (map (\<lambda>b.
         cross_entropy (logit p d t b) (vocab_size cfg)
           (nat (sint (shift_left_pad (target_tokens batch) t b)))
         * real_of_int (sint (shift_left_pad (target_mask batch) t b)))
       [0..<batch_size cfg])) [0..<rows2 (target_tokens batch)])
     / real (batch_size cfg)"





subsection \<open>A small instance\<close>

text \<open>
  One layer, hidden size 1, a vocabulary of two words and batches of one example; the
  target has two positions, the second one padding.
\<close>

definition example_config :: nlc_config where
  "example_config = \<lparr>vocab_size = 2, size_units = 1, num_layers = 1, max_gradient_norm = 1, batch_size = 1,
         learning_rate_decay_factor = 0.5, keep_prob = 1, forward_only = False\<rparr>"

definition example_gru :: gru_params where
  "example_gru = \<lparr>Gates = \<lparr>Matrix = \<lparr>rows2 = 2, cols2 = 2, data2 = [0, 0, 0, 0]\<rparr>, Bias = [1, 1]\<rparr>,
         Candidate = \<lparr>Matrix = \<lparr>rows2 = 2, cols2 = 1, data2 = [1, 0]\<rparr>, Bias = [0]\<rparr>\<rparr>"

definition example_params :: nlc_params where
  "example_params = \<lparr>L_enc = \<lparr>rows2 = 2, cols2 = 1, data2 = [0, 1]\<rparr>,
         L_dec = \<lparr>rows2 = 2, cols2 = 1, data2 = [0, 1]\<rparr>,
         EncoderCell_FW = (\<lambda>_. example_gru), EncoderCell_BW = (\<lambda>_. example_gru),
         Downscale = (\<lambda>_. \<lparr>Matrix = \<lparr>rows2 = 2, cols2 = 1, data2 = [1, 1]\<rparr>, Bias = [1]\<rparr>),
         DecoderCell = (\<lambda>_. example_gru), DecoderAttnCell = example_gru,
         Attn1_linear = \<lparr>Matrix = \<lparr>rows2 = 1, cols2 = 1, data2 = [1]\<rparr>, Bias = [1]\<rparr>,
         Attn2_linear = \<lparr>Matrix = \<lparr>rows2 = 1, cols2 = 1, data2 = [1]\<rparr>, Bias = [1]\<rparr>,
         AttnConcat_linear = \<lparr>Matrix = \<lparr>rows2 = 2, cols2 = 1, data2 = [1, 1]\<rparr>, Bias = [1]\<rparr>,
         Logistic = \<lparr>Matrix = \<lparr>rows2 = 1, cols2 = 2, data2 = [1, 0]\<rparr>, Bias = [1, 1]\<rparr>\<rparr>"


definition example_batch :: nlc_batch where
  "example_batch = \<lparr>source_tokens = \<lparr>rows2 = 1, cols2 = 1, data2 = [1]\<rparr>,
         source_mask = \<lparr>rows2 = 1, cols2 = 1, data2 = [1]\<rparr>,
         target_tokens = \<lparr>rows2 = 2, cols2 = 1, data2 = [1, 0]\<rparr>,
         target_mask = \<lparr>rows2 = 2, cols2 = 1, data2 = [1, 0]\<rparr>\<rparr>"

section \<open>Basic facts about tensors\<close>

lemma at2_mk2: "i < r \<Longrightarrow> j < c \<Longrightarrow> at2 (mk2 r c f) i j = f i j"
proof -
  assume i: "i < r" and j: "j < c"
  have "i * c + j < Suc i * c" using j by simp
  also have "\<dots> \<le> r * c" using i by (simp only: mult_le_mono1 Suc_leI)
  finally have lt: "i * c + j < r * c" .
  show ?thesis using lt j by (simp add: at2_def mk2_def)
qed

lemma wf2_mk2: "wf2 (mk2 r c f)"
  by (simp add: wf2_def mk2_def)

lemma dims_mk2: "rows2 (mk2 r c f) = r" "cols2 (mk2 r c f) = c"
  by (simp_all add: mk2_def)

section \<open>Learning-rate decay\<close>

lemma decay_funpow:
  "learning_rate ((learning_rate_decay_op cfg ^^ n) st) =
     learning_rate st * learning_rate_decay_factor cfg ^ n"
  by (induction n) (simp_all add: learning_rate_decay_op_def)

text \<open>
  Claim C8. Each run of the decay operation multiplies the learning rate by the decay
  factor, so \<open>n\<close> runs give the initial rate times the \<open>n\<close>-th power of the factor; from
  rate 0.1 with factor 0.5 one run gives 0.05.
\<close>

theorem learning_rate_decay_power:
  "learning_rate (learning_rate_decay_op cfg st) = learning_rate st * learning_rate_decay_factor cfg
   \<and> learning_rate ((learning_rate_decay_op cfg ^^ n) st) =
       learning_rate st * learning_rate_decay_factor cfg ^ n"
  by (simp add: decay_funpow) (simp add: learning_rate_decay_op_def)

theorem learning_rate_decay_power_witness:
  "learning_rate (learning_rate_decay_op
      \<lparr>vocab_size = 5, size_units = 4, num_layers = 1, max_gradient_norm = 1, batch_size = 2,
       learning_rate_decay_factor = 0.5, keep_prob = 1, forward_only = False\<rparr>
      \<lparr>learning_rate = 0.1, global_step = 0, trainable = [], opt_slots = ()\<rparr>) = 0.05
   \<and> learning_rate ((learning_rate_decay_op
      \<lparr>vocab_size = 5, size_units = 4, num_layers = 1, max_gradient_norm = 1, batch_size = 2,
       learning_rate_decay_factor = 0.5, keep_prob = 1, forward_only = False\<rparr> ^^ 3)
      \<lparr>learning_rate = 0.1, global_step = 0, trainable = [], opt_slots = ()\<rparr>) = 0.1 * 0.5 ^ 3"
  by (simp add: learning_rate_decay_power)

section \<open>The step functions\<close>

lemma test_eq:
  "test g cfg batch st =
     (case losses_of g (trainable st) batch of
        None \<Rightarrow> None
      | Some l \<Rightarrow> (case outputs_of g (trainable st) batch of
          None \<Rightarrow> None
        | Some out \<Rightarrow> Some ((l, out), st)))"
  by (simp add: test_def session_run_def split: option.splits)

text \<open>
  Claim C9. The test step runs the forward pass only: when the forward pass succeeds it
  returns the loss and the output distributions together with the very same variables
  (trainable tensors, learning rate, global step, optimizer slots), and it returns
  nothing else.
\<close>

theorem test_leaves_variables:
  "(losses_of g (trainable st) batch = Some l \<and> outputs_of g (trainable st) batch = Some out
      \<longrightarrow> test g cfg batch st = Some ((l, out), st))
   \<and> (test g cfg batch st = Some (res, st') \<longrightarrow>
        st' = st \<and> losses_of g (trainable st) batch = Some (fst res)
        \<and> outputs_of g (trainable st) batch = Some (snd res))"
  by (auto simp add: test_eq split: option.splits)

theorem test_leaves_variables_witness:
  "test \<lparr>losses_of = (\<lambda>p b. Some (sum_list (concat p))),
         outputs_of = (\<lambda>p b. Some \<lparr>dim_0 = 1, dim_1 = 1, dim_2 = 2, data3 = [1 / 2, 1 / 2]\<rparr>),
         gradients_of = (\<lambda>p b. map (\<lambda>x. Some (map (\<lambda>_. 1) x)) p),
         adam_apply = (\<lambda>lr gs (u::unit). (map (\<lambda>(gr, v). map (\<lambda>x. x - lr) v) gs, u))\<rparr>
        \<lparr>vocab_size = 2, size_units = 1, num_layers = 1, max_gradient_norm = 1, batch_size = 1,
         learning_rate_decay_factor = 0.5, keep_prob = 1, forward_only = False\<rparr>
        \<lparr>source_tokens = \<lparr>rows2 = 1, cols2 = 1, data2 = [1]\<rparr>,
         source_mask = \<lparr>rows2 = 1, cols2 = 1, data2 = [1]\<rparr>,
         target_tokens = \<lparr>rows2 = 1, cols2 = 1, data2 = [1]\<rparr>,
         target_mask = \<lparr>rows2 = 1, cols2 = 1, data2 = [1]\<rparr>\<rparr>
        \<lparr>learning_rate = 0.1, global_step = 7, trainable = [[3, 4]], opt_slots = ()\<rparr>
   = Some ((7, \<lparr>dim_0 = 1, dim_1 = 1, dim_2 = 2, data3 = [1 / 2, 1 / 2]\<rparr>),
           \<lparr>learning_rate = 0.1, global_step = 7, trainable = [[3, 4]], opt_slots = ()\<rparr>)"
  by (rule test_leaves_variables [THEN conjunct1, rule_format]) simp


section \<open>Gradient clipping\<close>

lemma l2_loss_scale: "l2_loss (map (\<lambda>v. v * s) xs) = s * s * l2_loss xs"
proof -
  have "sum_list (map (\<lambda>x. (x * s) * (x * s)) xs) = s * s * sum_list (map (\<lambda>x. x * x) xs)"
    by (induction xs) (simp_all add: algebra_simps)
  then show ?thesis by (simp add: l2_loss_def o_def)
qed

lemma l2_loss_nonneg: "0 \<le> l2_loss xs"
  unfolding l2_loss_def by (induction xs) (simp_all add: add_nonneg_nonneg)

lemma map_filter_scale:
  "List.map_filter id (map (map_option f) ts) = map f (List.map_filter id ts)"
  by (induction ts) (auto simp add: List.map_filter_def split: option.splits)

lemma sum_l2_scale:
  "sum_list (map (l2_loss \<circ> map (\<lambda>v. v * s)) xss) = s * s * sum_list (map l2_loss xss)"
  by (induction xss) (simp_all add: l2_loss_scale algebra_simps)

lemma global_norm_scale:
  "global_norm (map (map_option (map (\<lambda>v. v * s))) ts) = \<bar>s\<bar> * global_norm ts"
proof -
  have "sqrt (s * s * sum_list (map l2_loss (List.map_filter id ts)) * 2)
      = sqrt (s * s) * sqrt (sum_list (map l2_loss (List.map_filter id ts)) * 2)"
    by (simp add: real_sqrt_mult mult.assoc)
  then show ?thesis
    by (simp add: global_norm_def map_filter_scale sum_l2_scale)
qed

lemma global_norm_nonneg: "0 \<le> global_norm ts"
proof -
  have "0 \<le> sum_list (map l2_loss xss)" for xss
    by (induction xss) (simp_all add: l2_loss_nonneg)
  then show ?thesis by (simp add: global_norm_def)
qed

lemma clipped_norm_bound:
  assumes "0 < c"
  shows "global_norm (fst (clip_by_global_norm ts c)) \<le> c"
proof -
  let ?n = "global_norm ts"
  have n0: "0 \<le> ?n" by (rule global_norm_nonneg)
  have "global_norm (fst (clip_by_global_norm ts c)) = \<bar>c / max ?n c\<bar> * ?n"
    by (simp only: clip_by_global_norm_def Let_def fst_conv global_norm_scale)
  moreover have "\<bar>c / max ?n c\<bar> = c / max ?n c"
    using assms by (intro abs_of_pos divide_pos_pos) simp_all
  ultimately have eq: "global_norm (fst (clip_by_global_norm ts c)) = (c / max ?n c) * ?n"
    by (simp only:)
  show ?thesis
  proof (cases "?n \<le> c")
    case True
    then have "max ?n c = c" by simp
    with eq assms True show ?thesis by simp
  next
    case False
    then have "max ?n c = ?n" and "0 < ?n" using assms by simp_all
    with eq show ?thesis by simp
  qed
qed


section \<open>The train step\<close>




section \<open>Lengths from masks\<close>

lemma sum_list_all_one: "list_all (\<lambda>x. x = 1) xs \<Longrightarrow> sum_list xs = (of_nat (length xs) :: int32)"
  by (induction xs) simp_all

lemma sum_list_all_zero: "list_all (\<lambda>x. x = 0) xs \<Longrightarrow> sum_list xs = (0 :: int32)"
  by (induction xs) simp_all

lemma sum_prefix_of_ones:
  assumes "prefix_of_ones col"
  shows "sum_list col = (of_nat (leading_ones col) :: int32)"
proof -
  have "list_all (\<lambda>x. x = 1) (takeWhile (\<lambda>x. x = 1) col)"
    by (induction col) simp_all
  then have "sum_list (takeWhile (\<lambda>x. x = 1) col) = (of_nat (leading_ones col) :: int32)"
    by (simp add: sum_list_all_one leading_ones_def)
  moreover have "sum_list (dropWhile (\<lambda>x. x = 1) col) = 0"
    using assms by (simp add: sum_list_all_zero prefix_of_ones_def)
  moreover have "sum_list col
      = sum_list (takeWhile (\<lambda>x. x = 1) col) + sum_list (dropWhile (\<lambda>x. x = 1) col)"
    by (simp flip: sum_list_append)
  ultimately show ?thesis by simp
qed

lemma sint_of_nat_small: "n < 2 ^ 31 \<Longrightarrow> sint (of_nat n :: int32) = int n"
  by (simp add: signed_of_nat signed_take_bit_int_eq_self)

lemma leading_ones_le: "leading_ones col \<le> length col"
  by (simp add: leading_ones_def length_takeWhile_le)

lemma reduce_sum_0_leading_ones:
  assumes "valid_mask m" and "rows2 m < 2 ^ 31" and "j < cols2 m"
  shows "length (reduce_sum_0 m) = cols2 m
     \<and> sint (reduce_sum_0 m ! j) = int (leading_ones (column m j))"
proof -
  have p: "prefix_of_ones (column m j)"
    using assms(1,3) by (simp add: valid_mask_def list_all_iff)
  have "leading_ones (column m j) \<le> rows2 m"
    using leading_ones_le [of "column m j"] by (simp add: column_def)
  then have "leading_ones (column m j) < 2 ^ 31" using assms(2) by simp
  then show ?thesis
    using assms(3) by (simp add: reduce_sum_0_def sum_prefix_of_ones [OF p] sint_of_nat_small)
qed

lemma column_nth: "i < rows2 m \<Longrightarrow> column m b ! i = at2 m i b"
  by (simp add: column_def)

lemma prefix_of_ones_entries:
  assumes "prefix_of_ones col" "x \<in> set col"
  shows "x = 0 \<or> x = 1"
proof -
  have "set col = set (takeWhile (\<lambda>x. x = 1) col) \<union> set (dropWhile (\<lambda>x. x = 1) col)"
    by (metis set_append takeWhile_dropWhile_id)
  moreover have "y = 1" if "y \<in> set (takeWhile (\<lambda>x. x = 1) col)" for y
    using that by (rule set_takeWhileD [THEN conjunct2])
  moreover have "y = 0" if "y \<in> set (dropWhile (\<lambda>x. x = 1) col)" for y
    using that assms(1) by (simp add: prefix_of_ones_def list_all_iff)
  ultimately show ?thesis using assms(2) by auto
qed

lemma valid_mask_entries:
  assumes "valid_mask m" "i < rows2 m" "b < cols2 m"
  shows "at2 m i b = 0 \<or> at2 m i b = 1"
proof -
  have "prefix_of_ones (column m b)"
    using assms(1,3) by (simp add: valid_mask_def list_all_iff)
  moreover have "at2 m i b \<in> set (column m b)"
    using assms(2) by (simp add: column_def)
  ultimately show ?thesis by (rule prefix_of_ones_entries)
qed

text \<open>
  Claim C6. For a mask whose columns are ones followed by zeros (and whose time
  dimension is below \<open>2^31\<close>, the range of the 32-bit sum), the length vectors
  \<open>source_length\<close> and \<open>target_length\<close> have one entry per example, and entry \<open>i\<close> is
  the number of leading ones of column \<open>i\<close> of the mask.
\<close>

theorem lengths_are_leading_ones:
  assumes "valid_mask (source_mask batch)" and "rows2 (source_mask batch) < 2 ^ 31"
    and "valid_mask (target_mask batch)" and "rows2 (target_mask batch) < 2 ^ 31"
  shows "length (source_length batch) = cols2 (source_mask batch)
     \<and> (\<forall>i < cols2 (source_mask batch).
          sint (source_length batch ! i) = int (leading_ones (column (source_mask batch) i)))
     \<and> length (target_length batch) = cols2 (target_mask batch)
     \<and> (\<forall>i < cols2 (target_mask batch).
          sint (target_length batch ! i) = int (leading_ones (column (target_mask batch) i)))"
  using reduce_sum_0_leading_ones [OF assms(1,2)] reduce_sum_0_leading_ones [OF assms(3,4)]
  by (simp add: source_length_def target_length_def reduce_sum_0_def)

theorem lengths_are_leading_ones_witness:
  "valid_mask \<lparr>rows2 = 4, cols2 = 2, data2 = [1, 1, 1, 1, 0, 1, 0, 1]\<rparr>
   \<and> valid_mask \<lparr>rows2 = 3, cols2 = 2, data2 = [1, 1, 1, 1, 0, 1]\<rparr>
   \<and> map sint (source_length
        \<lparr>source_tokens = \<lparr>rows2 = 4, cols2 = 2, data2 = [3, 4, 2, 1, 0, 3, 0, 2]\<rparr>,
         source_mask = \<lparr>rows2 = 4, cols2 = 2, data2 = [1, 1, 1, 1, 0, 1, 0, 1]\<rparr>,
         target_tokens = \<lparr>rows2 = 3, cols2 = 2, data2 = [1, 1, 3, 2, 0, 4]\<rparr>,
         target_mask = \<lparr>rows2 = 3, cols2 = 2, data2 = [1, 1, 1, 1, 0, 1]\<rparr>\<rparr>) = [2, 4]
   \<and> map sint (target_length
        \<lparr>source_tokens = \<lparr>rows2 = 4, cols2 = 2, data2 = [3, 4, 2, 1, 0, 3, 0, 2]\<rparr>,
         source_mask = \<lparr>rows2 = 4, cols2 = 2, data2 = [1, 1, 1, 1, 0, 1, 0, 1]\<rparr>,
         target_tokens = \<lparr>rows2 = 3, cols2 = 2, data2 = [1, 1, 3, 2, 0, 4]\<rparr>,
         target_mask = \<lparr>rows2 = 3, cols2 = 2, data2 = [1, 1, 1, 1, 0, 1]\<rparr>\<rparr>) = [2, 3]"
proof -
  let ?sm = "\<lparr>rows2 = 4, cols2 = 2, data2 = [1, 1, 1, 1, 0, 1, 0, 1 :: int32]\<rparr>"
  let ?tm = "\<lparr>rows2 = 3, cols2 = 2, data2 = [1, 1, 1, 1, 0, 1 :: int32]\<rparr>"
  let ?batch = "\<lparr>source_tokens = \<lparr>rows2 = 4, cols2 = 2, data2 = [3, 4, 2, 1, 0, 3, 0, 2]\<rparr>,
         source_mask = ?sm,
         target_tokens = \<lparr>rows2 = 3, cols2 = 2, data2 = [1, 1, 3, 2, 0, 4]\<rparr>,
         target_mask = ?tm\<rparr>"
  have v: "valid_mask ?sm" "valid_mask ?tm" by code_simp+
  have l: "leading_ones (column ?sm 0) = 2" "leading_ones (column ?sm 1) = 4"
    "leading_ones (column ?tm 0) = 2" "leading_ones (column ?tm 1) = 3"
    by code_simp+
  have a: "length (source_length ?batch) = 2 \<and> length (target_length ?batch) = 2"
    and s: "\<And>i. i < 2 \<Longrightarrow>
      sint (source_length ?batch ! i) = int (leading_ones (column ?sm i))"
    and t: "\<And>i. i < 2 \<Longrightarrow>
      sint (target_length ?batch ! i) = int (leading_ones (column ?tm i))"
    using lengths_are_leading_ones [of ?batch] v by simp_all
  have c: "length (source_length ?batch) = 2"
    "sint (source_length ?batch ! 0) = 2" "sint (source_length ?batch ! 1) = 4"
    "length (target_length ?batch) = 2"
    "sint (target_length ?batch ! 0) = 2" "sint (target_length ?batch ! 1) = 3"
    using a s [of 0] s [of 1] t [of 0] t [of 1] l by simp_all
  have two: "xs = [xs ! 0, xs ! 1]" if "length xs = 2" for xs :: "int32 list"
    using that by (cases xs; cases "tl xs") auto
  have "map sint (source_length ?batch) = [2, 4]"
    by (subst two [OF c(1)]) (use c in simp)
  moreover have "map sint (target_length ?batch) = [2, 3]"
    by (subst two [OF c(4)]) (use c in simp)
  ultimately show ?thesis using v by simp
qed

section \<open>Reshapes and index arithmetic\<close>

lemma infer_rows:
  "infer_shape [- 1, int n] len =
     (if n = 0 \<or> len mod n \<noteq> 0 then None else Some [len div n, n])"
  by (simp add: infer_shape_def)

lemma infer_cols:
  "infer_shape [int n, - 1] len =
     (if n = 0 \<or> len mod n \<noteq> 0 then None else Some [n, len div n])"
  by (simp add: infer_shape_def)

lemma tf_reshape2_rows:
  "tf_reshape2 (- 1) (int n) xs =
     (if n = 0 \<or> length xs mod n \<noteq> 0 then None
      else Some \<lparr>rows2 = length xs div n, cols2 = n, data2 = xs\<rparr>)"
  by (simp add: tf_reshape2_def infer_rows)

lemma tf_reshape2_cols:
  "tf_reshape2 (int n) (- 1) xs =
     (if n = 0 \<or> length xs mod n \<noteq> 0 then None
      else Some \<lparr>rows2 = n, cols2 = length xs div n, data2 = xs\<rparr>)"
  by (simp add: tf_reshape2_def infer_cols)

lemma data2_mk2_nth:
  "i < r \<Longrightarrow> j < c \<Longrightarrow> data2 (mk2 r c f) ! (i * c + j) = f i j"
  using at2_mk2 [of i r j c f] by (simp add: at2_def mk2_def)

lemma length_data2_mk2: "length (data2 (mk2 r c f)) = r * c"
  by (simp add: mk2_def)

lemma mk2_cong:
  "(\<And>i j. i < r \<Longrightarrow> j < c \<Longrightarrow> f i j = g i j) \<Longrightarrow> mk2 r c f = mk2 r c g"
proof -
  assume h: "\<And>i j. i < r \<Longrightarrow> j < c \<Longrightarrow> f i j = g i j"
  have "f (k div c) (k mod c) = g (k div c) (k mod c)" if "k < r * c" for k
  proof -
    have "0 < c" using that by (cases c) simp_all
    moreover have "k div c < r" using that by (simp add: less_mult_imp_div_less)
    ultimately show ?thesis by (simp add: h)
  qed
  then show ?thesis by (simp add: mk2_def)
qed

section \<open>Downscale\<close>

lemma list_ex_upt2: "list_ex P [0..<2] \<longleftrightarrow> P 0 \<or> P (Suc 0)"
  by (simp add: numeral_2_eq_2)

lemma downscale_mask_even:
  assumes wf: "wf2 m" and T: "rows2 m = 2 * h" and B: "cols2 m = batch_size cfg"
    and B0: "0 < batch_size cfg"
  shows "downscale_mask cfg m =
     Some (mk2 h (batch_size cfg)
       (\<lambda>j b. if at2 m (2 * j) b \<noteq> 0 \<or> at2 m (2 * j + 1) b \<noteq> 0 then 1 else 0))"
proof -
  define n where "n = batch_size cfg"
  define m1 where "m1 = tf_transpose m"
  have m1: "m1 = mk2 n (2 * h) (\<lambda>b i. at2 m i b)"
    by (simp add: m1_def tf_transpose_def T B n_def)
  have len1: "length (data2 m1) = n * h * 2"
    by (simp add: m1 length_data2_mk2)
  define m2 where "m2 = \<lparr>rows2 = n * h, cols2 = 2, data2 = data2 m1\<rparr>"
  have r1: "tf_reshape2 (- 1) 2 (data2 m1) = Some m2"
    using tf_reshape2_rows [of 2 "data2 m1"] by (simp add: len1 m2_def)
  define m5 where "m5 = tf_to_int32 (tf_reduce_any_1 (tf_cast_bool m2))"
  have len5: "length m5 = n * h"
    by (simp add: m5_def tf_to_int32_def tf_reduce_any_1_def tf_cast_bool_def m2_def)
  define m6 where "m6 = \<lparr>rows2 = n, cols2 = h, data2 = m5\<rparr>"
  have r2: "tf_reshape2 (int n) (- 1) m5 = Some m6"
    using B0 by (simp add: tf_reshape2_cols len5 m6_def n_def)
  have entry: "at2 m6 b j = (if at2 m (2 * j) b \<noteq> 0 \<or> at2 m (2 * j + 1) b \<noteq> 0 then 1 else 0)"
    if b: "b < n" and j: "j < h" for b j
  proof -
    have "b * h + j < Suc b * h" using j by simp
    also have "\<dots> \<le> n * h" using b by (simp only: mult_le_mono1 Suc_leI)
    finally have k: "b * h + j < n * h" .
    have idx: "(b * h + j) * 2 + c = b * (2 * h) + (2 * j + c)" for c
      by (simp add: algebra_simps)
    have pair: "data2 m1 ! ((b * h + j) * 2 + c) = at2 m (2 * j + c) b" if "c < 2" for c
      unfolding idx m1 using b j that by (intro data2_mk2_nth [THEN trans]) simp_all
    have lt: "(b * h + j) * 2 + c < length (data2 m1)" if "c < 2" for c
      using k that unfolding len1 by simp
    have "at2 (tf_cast_bool m2) (b * h + j) c \<longleftrightarrow> at2 m (2 * j + c) b \<noteq> 0" if "c < 2" for c
      using lt [OF that] pair [OF that] by (simp add: at2_def tf_cast_bool_def m2_def)
    from this [of 0] this [of 1] k show ?thesis
      by (simp add: at2_def m6_def m5_def tf_to_int32_def tf_reduce_any_1_def list_ex_upt2
          tf_cast_bool_def m2_def)
  qed
  have "tf_transpose m6 = mk2 h n
      (\<lambda>j b. if at2 m (2 * j) b \<noteq> 0 \<or> at2 m (2 * j + 1) b \<noteq> 0 then 1 else 0)"
    unfolding tf_transpose_def by (simp add: m6_def) (rule mk2_cong, simp add: entry [unfolded m6_def])
  then show ?thesis
    using r1 r2 by (simp add: downscale_mask_def m1_def [symmetric] m5_def [symmetric] n_def [symmetric])
qed

lemma idx3_bound:
  assumes "i < a" "j < b" "l < c"
  shows "(i * b + j) * c + l < a * b * (c::nat)"
proof -
  have "i * b + j < Suc i * b" using assms(2) by simp
  also have "\<dots> \<le> a * b" using assms(1) by (simp only: mult_le_mono1 Suc_leI)
  finally have ij: "i * b + j < a * b" .
  have "(i * b + j) * c + l < Suc (i * b + j) * c" using assms(3) by simp
  also have "\<dots> \<le> (a * b) * c" using ij by (simp only: mult_le_mono1 Suc_leI)
  finally show ?thesis .
qed

lemma data3_mk3_nth:
  assumes "i < a" "j < b" "l < c"
  shows "data3 (mk3 a b c f) ! ((i * b + j) * c + l) = f i j l"
proof -
  let ?k = "(i * b + j) * c + l"
  have k: "?k < a * b * c" using assms by (rule idx3_bound)
  have d1: "?k div c = i * b + j" using assms(3) by simp
  have "?k div (b * c) = ?k div (c * b)" by (simp only: mult.commute)
  also have "\<dots> = (?k div c) div b" by (rule div_mult2_eq)
  finally have d2: "?k div (b * c) = i" using assms(2) d1 by simp
  have d3: "?k div c mod b = j" using assms(2) d1 by simp
  show ?thesis using k assms(3) d2 d3 by (simp add: mk3_def)
qed

lemma at3_mk3: "i < a \<Longrightarrow> j < b \<Longrightarrow> l < c \<Longrightarrow> at3 (mk3 a b c f) i j l = f i j l"
  using data3_mk3_nth [of i a j b l c f] by (simp add: at3_def mk3_def)

lemma length_data3_mk3: "length (data3 (mk3 a b c f)) = a * b * c"
  by (simp add: mk3_def)

lemma wf3_mk3: "wf3 (mk3 a b c f)"
  by (simp add: wf3_def mk3_def)

lemma mk3_cong:
  assumes "\<And>i j l. i < a \<Longrightarrow> j < b \<Longrightarrow> l < c \<Longrightarrow> f i j l = g i j l"
  shows "mk3 a b c f = mk3 a b c g"
proof -
  have "f (k div (b * c)) (k div c mod b) (k mod c) = g (k div (b * c)) (k div c mod b) (k mod c)"
    if "k < a * b * c" for k
  proof -
    have c0: "0 < c" using that by (cases c) simp_all
    have b0: "0 < b" using that by (cases b) simp_all
    have "k < a * (b * c)" using that by (simp add: mult.assoc)
    then have "k div (b * c) < a" by (simp add: less_mult_imp_div_less)
    then show ?thesis using c0 b0 by (simp add: assms)
  qed
  then show ?thesis by (simp add: mk3_def)
qed

lemma infer_mid:
  "infer_shape [int a, - 1, int c] len =
     (if a * c = 0 \<or> len mod (a * c) \<noteq> 0 then None else Some [a, len div (a * c), c])"
  by (simp add: infer_shape_def)

lemma tf_reshape3_mid:
  "tf_reshape3 (int a) (- 1) (int c) xs =
     (if a * c = 0 \<or> length xs mod (a * c) \<noteq> 0 then None
      else Some \<lparr>dim_0 = a, dim_1 = length xs div (a * c), dim_2 = c, data3 = xs\<rparr>)"
  by (simp add: tf_reshape3_def infer_mid)

lemma transpose_102_flat:
  assumes "b < dim_1 inp" "t < dim_0 inp" "l < dim_2 inp"
  shows "data3 (tf_transpose_102 inp) ! ((b * dim_0 inp + t) * dim_2 inp + l) = at3 inp t b l"
  unfolding tf_transpose_102_def using assms by (rule data3_mk3_nth)

lemma length_transpose_102:
  "length (data3 (tf_transpose_102 inp)) = dim_1 inp * dim_0 inp * dim_2 inp"
  by (simp add: tf_transpose_102_def length_data3_mk3)

lemma downscale_pairs_eq:
  "downscale_pairs cfg inp =
     (if size_units cfg = 0 \<or> (dim_1 inp * dim_0 inp * dim_2 inp) mod (2 * size_units cfg) \<noteq> 0
      then None
      else Some \<lparr>rows2 = (dim_1 inp * dim_0 inp * dim_2 inp) div (2 * size_units cfg),
                 cols2 = 2 * size_units cfg, data2 = data3 (tf_transpose_102 inp)\<rparr>)"
  using tf_reshape2_rows [of "2 * size_units cfg" "data3 (tf_transpose_102 inp)"]
  by (simp add: downscale_pairs_def length_transpose_102)

lemma downscale_pairs_mult:
  assumes "0 < size_units cfg"
    and "dim_1 inp * dim_0 inp * dim_2 inp = r * (2 * size_units cfg)"
  shows "downscale_pairs cfg inp =
     Some \<lparr>rows2 = r, cols2 = 2 * size_units cfg, data2 = data3 (tf_transpose_102 inp)\<rparr>"
  using assms(1) unfolding downscale_pairs_eq assms(2) by simp

lemma pairs_entry:
  assumes "b < dim_1 inp" "t < dim_0 inp" "l < dim_2 inp"
    and "r * c + k = (b * dim_0 inp + t) * dim_2 inp + l"
  shows "at2 \<lparr>rows2 = R, cols2 = c, data2 = data3 (tf_transpose_102 inp)\<rparr> r k = at3 inp t b l"
  using transpose_102_flat [OF assms(1-3)] by (simp add: at2_def assms(4))

lemma downscale_pairs_even:
  assumes T: "dim_0 inp = 2 * h" and n: "dim_2 inp = size_units cfg" and n0: "0 < size_units cfg"
  shows "\<exists>inp2d. downscale_pairs cfg inp = Some inp2d
     \<and> rows2 inp2d = dim_1 inp * h \<and> cols2 inp2d = 2 * size_units cfg
     \<and> (\<forall>b<dim_1 inp. \<forall>j<h. \<forall>k<2 * size_units cfg.
           at2 inp2d (b * h + j) k = pooled_pair inp (size_units cfg) j b k)"
proof -
  let ?n = "size_units cfg" and ?B = "dim_1 inp"
  let ?p = "\<lparr>rows2 = ?B * h, cols2 = 2 * ?n, data2 = data3 (tf_transpose_102 inp)\<rparr>"
  have "?B * dim_0 inp * dim_2 inp = (?B * h) * (2 * ?n)" by (simp add: T n)
  then have eq: "downscale_pairs cfg inp = Some ?p"
    using n0 by (rule downscale_pairs_mult [rotated])
  have "at2 ?p (b * h + j) k = pooled_pair inp ?n j b k"
    if b: "b < ?B" and j: "j < h" and k: "k < 2 * ?n" for b j k
  proof (cases "k < ?n")
    case True
    have "(b * h + j) * (2 * ?n) + k = (b * dim_0 inp + 2 * j) * dim_2 inp + k"
      by (simp add: T n algebra_simps)
    then have "at2 ?p (b * h + j) k = at3 inp (2 * j) b k"
      using b j True by (intro pairs_entry) (simp_all add: T n)
    then show ?thesis using True by (simp add: pooled_pair_def)
  next
    case False
    have k': "k - ?n < ?n" using k False by simp
    have "(b * h + j) * (2 * ?n) + k = (b * dim_0 inp + (2 * j + 1)) * dim_2 inp + (k - ?n)"
      using False by (simp add: T n algebra_simps)
    then have "at2 ?p (b * h + j) k = at3 inp (2 * j + 1) b (k - ?n)"
      using b j k' by (intro pairs_entry) (simp_all add: T n)
    then show ?thesis using False by (simp add: pooled_pair_def)
  qed
  with eq show ?thesis by simp
qed

lemma downscale_pairs_odd_fails:
  assumes "odd (dim_0 inp)" "odd (dim_1 inp)" "dim_2 inp = size_units cfg"
  shows "downscale_pairs cfg inp = None"
proof (cases "size_units cfg = 0")
  case True
  then show ?thesis by (simp add: downscale_pairs_eq)
next
  case False
  have "odd (dim_1 inp * dim_0 inp)" using assms by simp
  then have "\<not> 2 dvd dim_1 inp * dim_0 inp" by simp
  then have "\<not> 2 * size_units cfg dvd dim_1 inp * dim_0 inp * size_units cfg"
    using False by (simp add: mult.commute)
  then show ?thesis
    by (simp add: downscale_pairs_eq assms(3) mod_eq_0_iff_dvd)
qed

lemma downscale_pairs_odd_crosses:
  assumes T: "odd (dim_0 inp)" and B: "even (dim_1 inp)" "0 < dim_1 inp"
    and n: "dim_2 inp = size_units cfg" "0 < size_units cfg"
  shows "\<exists>inp2d. downscale_pairs cfg inp = Some inp2d
     \<and> (dim_0 inp - 1) div 2 < rows2 inp2d
     \<and> (\<forall>k < size_units cfg.
           at2 inp2d ((dim_0 inp - 1) div 2) k = at3 inp (dim_0 inp - 1) 0 k
         \<and> at2 inp2d ((dim_0 inp - 1) div 2) (size_units cfg + k) = at3 inp 0 1 k)"
proof -
  let ?n = "size_units cfg" and ?B = "dim_1 inp" and ?T = "dim_0 inp"
  obtain h where h: "?T = 2 * h + 1" using T by (auto elim: oddE)
  obtain c where c: "?B = 2 * c" using B(1) by (auto elim: evenE)
  have c0: "0 < c" using B(2) c by simp
  let ?p = "\<lparr>rows2 = c * ?T, cols2 = 2 * ?n, data2 = data3 (tf_transpose_102 inp)\<rparr>"
  have "?B * ?T * dim_2 inp = (c * ?T) * (2 * ?n)" by (simp add: c n(1))
  then have eq: "downscale_pairs cfg inp = Some ?p"
    using n(2) by (rule downscale_pairs_mult [rotated])
  have "h < 1 * ?T" by (simp add: h)
  also have "\<dots> \<le> c * ?T" using c0 by (simp only: mult_le_mono1 Suc_leI One_nat_def)
  finally have row: "h < rows2 ?p" by simp
  have first: "at2 ?p h k = at3 inp (?T - 1) 0 k" if "k < ?n" for k
  proof -
    have "h * (2 * ?n) + k = (0 * ?T + (?T - 1)) * dim_2 inp + k"
      by (simp add: h n(1) algebra_simps)
    then show ?thesis
      using that B(2) by (intro pairs_entry) (simp_all add: n(1) h)
  qed
  have second: "at2 ?p h (?n + k) = at3 inp 0 1 k" if "k < ?n" for k
  proof -
    have "h * (2 * ?n) + (?n + k) = (1 * ?T + 0) * dim_2 inp + k"
      by (simp add: h n(1) algebra_simps)
    then show ?thesis
      using that c c0 by (intro pairs_entry) (simp_all add: n(1) h)
  qed
  have "(?T - 1) div 2 = h" by (simp add: h)
  with eq row first second show ?thesis by simp
qed

lemma map3_mk3: "map3 f (mk3 a b c g) = mk3 a b c (\<lambda>i j l. f (g i j l))"
  by (simp add: map3_def mk3_def)

lemma dims_mk3: "dim_0 (mk3 a b c f) = a" "dim_1 (mk3 a b c f) = b" "dim_2 (mk3 a b c f) = c"
  by (simp_all add: mk3_def)

lemma downscale_inp_even:
  assumes T: "dim_0 inp = 2 * h" and B: "dim_1 inp = batch_size cfg" "0 < batch_size cfg"
    and n: "dim_2 inp = size_units cfg" "0 < size_units cfg"
    and p: "wf_linear p (2 * size_units cfg) (size_units cfg)"
  shows "downscale_inp cfg p inp =
     Some (mk3 h (batch_size cfg) (size_units cfg) (pooled_feature p inp (size_units cfg)))"
proof -
  let ?n = "size_units cfg" and ?B = "batch_size cfg"
  obtain inp2d where pr: "downscale_pairs cfg inp = Some inp2d"
    and r: "rows2 inp2d = ?B * h" and c: "cols2 inp2d = 2 * ?n"
    and e: "\<And>b j k. b < ?B \<Longrightarrow> j < h \<Longrightarrow> k < 2 * ?n \<Longrightarrow>
              at2 inp2d (b * h + j) k = pooled_pair inp ?n j b k"
    using downscale_pairs_even [OF T n] unfolding B(1) by blast
  define out2d where "out2d = linear p inp2d"
  have cw: "cols2 (Matrix p) = ?n" using p by (simp add: wf_linear_def)
  have o2: "out2d = mk2 (?B * h) ?n
      (\<lambda>i out. sum_list (map (\<lambda>k. at2 inp2d i k * at2 (Matrix p) k out) [0..<2 * ?n]) + Bias p ! out)"
    by (simp add: out2d_def linear_def r c cw)
  have len: "length (data2 out2d) = h * (?B * ?n)"
    by (simp add: o2 length_data2_mk2)
  define out3d where "out3d = \<lparr>dim_0 = ?B, dim_1 = h, dim_2 = ?n, data3 = data2 out2d\<rparr>"
  have rs: "tf_reshape3 (int ?B) (- 1) (int ?n) (data2 out2d) = Some out3d"
    using B(2) n(2) unfolding tf_reshape3_mid len by (simp add: out3d_def)
  have entry: "at3 out3d b j l = sum_list (map (\<lambda>k. pooled_pair inp ?n j b k * at2 (Matrix p) k l)
        [0..<2 * ?n]) + Bias p ! l"
    if b: "b < ?B" and j: "j < h" and l: "l < ?n" for b j l
  proof -
    have "b * h + j < Suc b * h" using j by simp
    also have "\<dots> \<le> ?B * h" using b by (simp only: mult_le_mono1 Suc_leI)
    finally have k: "b * h + j < ?B * h" .
    have "at3 out3d b j l = data2 out2d ! ((b * h + j) * ?n + l)"
      by (simp add: at3_def out3d_def)
    also have "\<dots> = sum_list (map (\<lambda>k. at2 inp2d (b * h + j) k * at2 (Matrix p) k l) [0..<2 * ?n])
        + Bias p ! l"
      unfolding o2 using k l by (rule data2_mk2_nth)
    also have "\<dots> = sum_list (map (\<lambda>k. pooled_pair inp ?n j b k * at2 (Matrix p) k l) [0..<2 * ?n])
        + Bias p ! l"
    proof -
      have "map (\<lambda>k. at2 inp2d (b * h + j) k * at2 (Matrix p) k l) [0..<2 * ?n]
          = map (\<lambda>k. pooled_pair inp ?n j b k * at2 (Matrix p) k l) [0..<2 * ?n]"
        by (rule map_cong) (simp_all add: e b j)
      then show ?thesis by (simp only:)
    qed
    finally show ?thesis .
  qed
  have "tf_transpose_102 out3d = mk3 h ?B ?n (\<lambda>j b l. at3 out3d b j l)"
    by (simp add: tf_transpose_102_def out3d_def)
  then have "map3 tanh (tf_transpose_102 out3d) = mk3 h ?B ?n (\<lambda>j b l. tanh (at3 out3d b j l))"
    by (simp add: map3_mk3)
  also have "\<dots> = mk3 h ?B ?n (pooled_feature p inp ?n)"
    by (rule mk3_cong) (simp add: entry pooled_feature_def)
  finally show ?thesis
    using pr rs by (simp add: downscale_inp_def out2d_def [symmetric])
qed

lemma downscale_inp_odd:
  assumes T: "odd (dim_0 inp)" and B: "dim_1 inp = batch_size cfg" "0 < batch_size cfg"
    and n: "dim_2 inp = size_units cfg" "0 < size_units cfg"
    and p: "wf_linear p (2 * size_units cfg) (size_units cfg)"
  shows "downscale_inp cfg p inp = None"
proof (cases "odd (batch_size cfg)")
  case True
  then have "downscale_pairs cfg inp = None"
    using T n(1) B(1) by (intro downscale_pairs_odd_fails) simp_all
  then show ?thesis by (simp add: downscale_inp_def)
next
  case False
  let ?n = "size_units cfg" and ?B = "batch_size cfg" and ?T = "dim_0 inp"
  obtain c where c: "?B = 2 * c" using False by (auto elim: evenE)
  have c0: "0 < c" using B(2) c by simp
  let ?p = "\<lparr>rows2 = c * ?T, cols2 = 2 * ?n, data2 = data3 (tf_transpose_102 inp)\<rparr>"
  have "dim_1 inp * ?T * dim_2 inp = (c * ?T) * (2 * ?n)" by (simp add: c n(1) B(1))
  then have pr: "downscale_pairs cfg inp = Some ?p"
    using n(2) by (rule downscale_pairs_mult [rotated])
  have cw: "cols2 (Matrix p) = ?n" using p by (simp add: wf_linear_def)
  have len: "length (data2 (linear p ?p)) = ?T * (c * ?n)"
    by (simp add: linear_def length_data2_mk2 cw)
  have "\<not> 2 dvd ?T" using T by simp
  then have "\<not> 2 * (c * ?n) dvd ?T * (c * ?n)" using c0 n(2) by simp
  then have "(?T * (c * ?n)) mod (?B * ?n) \<noteq> 0"
    by (simp add: c mod_eq_0_iff_dvd mult.assoc)
  then have "tf_reshape3 (int ?B) (- 1) (int ?n) (data2 (linear p ?p)) = None"
    unfolding tf_reshape3_mid len by simp
  then show ?thesis using pr by (simp add: downscale_inp_def)
qed

lemma downscale_mask_odd:
  assumes T: "odd (rows2 m)" and B: "cols2 m = batch_size cfg"
  shows "downscale_mask cfg m = None"
proof (cases "odd (batch_size cfg)")
  case True
  have "length (data2 (tf_transpose m)) = batch_size cfg * rows2 m"
    by (simp add: tf_transpose_def length_data2_mk2 B)
  moreover have "odd (batch_size cfg * rows2 m)" using True T by simp
  then have "(batch_size cfg * rows2 m) mod 2 \<noteq> 0" by presburger
  ultimately have "tf_reshape2 (- 1) 2 (data2 (tf_transpose m)) = None"
    using tf_reshape2_rows [of 2 "data2 (tf_transpose m)"] by simp
  then show ?thesis by (simp add: downscale_mask_def)
next
  case False
  let ?B = "batch_size cfg" and ?T = "rows2 m"
  obtain c where c: "?B = 2 * c" using False by (auto elim: evenE)
  define m1 where "m1 = tf_transpose m"
  have len1: "length (data2 m1) = (c * ?T) * 2"
    by (simp add: m1_def tf_transpose_def length_data2_mk2 B c)
  define m2 where "m2 = \<lparr>rows2 = c * ?T, cols2 = 2, data2 = data2 m1\<rparr>"
  have r1: "tf_reshape2 (- 1) 2 (data2 m1) = Some m2"
    using tf_reshape2_rows [of 2 "data2 m1"] by (simp add: len1 m2_def)
  define m5 where "m5 = tf_to_int32 (tf_reduce_any_1 (tf_cast_bool m2))"
  have len5: "length m5 = ?T * c"
    by (simp add: m5_def tf_to_int32_def tf_reduce_any_1_def tf_cast_bool_def m2_def)
  have "tf_reshape2 (int ?B) (- 1) m5 = None"
  proof (cases "c = 0")
    case True
    then show ?thesis using tf_reshape2_cols [of 0 m5] by (simp add: c)
  next
    case False
    have "\<not> 2 dvd ?T" using T by simp
    then have "\<not> 2 * c dvd ?T * c" using False by simp
    then have "(?T * c) mod ?B \<noteq> 0" by (simp add: c mod_eq_0_iff_dvd)
    then show ?thesis unfolding tf_reshape2_cols len5 by simp
  qed
  then show ?thesis
    using r1 by (simp add: downscale_mask_def m1_def [symmetric] m5_def [symmetric])
qed

text \<open>
  Claim C1, with an even time dimension. On an input of even time dimension \<open>T\<close>, a
  valid mask of the same time dimension and a positive batch size and hidden size,
  \<open>downscale\<close> returns an output and a mask of time dimension \<open>T / 2\<close>; the output mask
  is well-formed, holds zeros and ones only, and is 1 at position \<open>j\<close> of an example
  exactly when the input mask of that example is 1 at position \<open>2j\<close> or \<open>2j + 1\<close>.
\<close>

theorem downscale_halves_even:
  assumes m: "valid_mask m" "rows2 m = dim_0 inp" "cols2 m = batch_size cfg"
    and T: "even (dim_0 inp)"
    and B: "dim_1 inp = batch_size cfg" "0 < batch_size cfg"
    and n: "dim_2 inp = size_units cfg" "0 < size_units cfg"
    and p: "wf_linear p (2 * size_units cfg) (size_units cfg)"
  shows "\<exists>out m'. downscale cfg p inp m = Some (out, m')
     \<and> dim_0 out = dim_0 inp div 2 \<and> dim_1 out = dim_1 inp \<and> dim_2 out = dim_2 inp
     \<and> wf2 m' \<and> rows2 m' = rows2 m div 2 \<and> cols2 m' = cols2 m
     \<and> (\<forall>j < rows2 m div 2. \<forall>b < cols2 m.
           (at2 m' j b = 1 \<longleftrightarrow> at2 m (2 * j) b = 1 \<or> at2 m (2 * j + 1) b = 1)
         \<and> (at2 m' j b = 0 \<longleftrightarrow> \<not> (at2 m (2 * j) b = 1 \<or> at2 m (2 * j + 1) b = 1)))"
proof -
  obtain h where h: "dim_0 inp = 2 * h" using T by (auto elim: evenE)
  let ?m' = "mk2 h (batch_size cfg)
       (\<lambda>j b. if at2 m (2 * j) b \<noteq> 0 \<or> at2 m (2 * j + 1) b \<noteq> 0 then 1 else (0::int32))"
  let ?out = "mk3 h (batch_size cfg) (size_units cfg) (pooled_feature p inp (size_units cfg))"
  have wf: "wf2 m" using m(1) by (simp add: valid_mask_def)
  have dm: "downscale_mask cfg m = Some ?m'"
    using wf _ m(3) B(2) by (rule downscale_mask_even) (simp add: m(2) h)
  have di: "downscale_inp cfg p inp = Some ?out"
    using h B n p by (rule downscale_inp_even)
  have ds: "downscale cfg p inp m = Some (?out, ?m')"
    by (simp add: downscale_def dm di)
  have e: "(at2 ?m' j b = 1 \<longleftrightarrow> at2 m (2 * j) b = 1 \<or> at2 m (2 * j + 1) b = 1)
         \<and> (at2 ?m' j b = 0 \<longleftrightarrow> \<not> (at2 m (2 * j) b = 1 \<or> at2 m (2 * j + 1) b = 1))"
    if j: "j < h" and b: "b < batch_size cfg" for j b
  proof -
    have "at2 m (2 * j) b = 0 \<or> at2 m (2 * j) b = 1"
      using m(1) by (rule valid_mask_entries) (use j b in \<open>simp_all add: m h\<close>)
    moreover have "at2 m (2 * j + 1) b = 0 \<or> at2 m (2 * j + 1) b = 1"
      using m(1) by (rule valid_mask_entries) (use j b in \<open>simp_all add: m h\<close>)
    ultimately show ?thesis using j b by (auto simp add: at2_mk2)
  qed
  show ?thesis
    unfolding ds using e by (simp add: dims_mk3 dims_mk2 wf2_mk2 m h B n)
qed

lemma downscale_odd:
  assumes "odd (dim_0 inp)" "dim_1 inp = batch_size cfg" "0 < batch_size cfg"
    "dim_2 inp = size_units cfg" "0 < size_units cfg"
    "wf_linear p (2 * size_units cfg) (size_units cfg)"
  shows "downscale cfg p inp m = None"
  using downscale_inp_odd [OF assms] by (simp add: downscale_def)

theorem downscale_halves_even_witness:
  "valid_mask \<lparr>rows2 = 4, cols2 = 2, data2 = [1, 1, 1, 1, 0, 1, 0, 1]\<rparr>
   \<and> (\<exists>out m'. downscale
        \<lparr>vocab_size = 5, size_units = 1, num_layers = 1, max_gradient_norm = 1, batch_size = 2,
         learning_rate_decay_factor = 0.5, keep_prob = 1, forward_only = False\<rparr>
        \<lparr>Matrix = \<lparr>rows2 = 2, cols2 = 1, data2 = [1, 1]\<rparr>, Bias = [1]\<rparr>
        \<lparr>dim_0 = 4, dim_1 = 2, dim_2 = 1, data3 = [1, 2, 3, 4, 5, 6, 7, 8]\<rparr>
        \<lparr>rows2 = 4, cols2 = 2, data2 = [1, 1, 1, 1, 0, 1, 0, 1]\<rparr> = Some (out, m')
      \<and> dim_0 out = 2 \<and> rows2 m' = 2 \<and> cols2 m' = 2
      \<and> at2 m' 0 0 = 1 \<and> at2 m' 1 0 = 0 \<and> at2 m' 0 1 = 1 \<and> at2 m' 1 1 = 1)"
proof -
  let ?m = "\<lparr>rows2 = 4, cols2 = 2, data2 = [1, 1, 1, 1, 0, 1, 0, 1 :: int32]\<rparr>"
  let ?cfg = "\<lparr>vocab_size = 5, size_units = 1, num_layers = 1, max_gradient_norm = 1, batch_size = 2,
         learning_rate_decay_factor = 0.5, keep_prob = 1, forward_only = False\<rparr>"
  let ?p = "\<lparr>Matrix = \<lparr>rows2 = 2, cols2 = 1, data2 = [1, 1]\<rparr>, Bias = [1]\<rparr>"
  let ?inp = "\<lparr>dim_0 = 4, dim_1 = 2, dim_2 = 1, data3 = [1, 2, 3, 4, 5, 6, 7, 8 :: real]\<rparr>"
  have v: "valid_mask ?m" by code_simp
  have w: "wf_linear ?p (2 * size_units ?cfg) (size_units ?cfg)"
    by (simp add: wf_linear_def wf2_def)
  obtain out m' where d: "downscale ?cfg ?p ?inp ?m = Some (out, m')"
    and s: "dim_0 out = dim_0 ?inp div 2" "rows2 m' = rows2 ?m div 2" "cols2 m' = cols2 ?m"
    and e: "\<And>j b. j < rows2 ?m div 2 \<Longrightarrow> b < cols2 ?m \<Longrightarrow>
          (at2 m' j b = 1 \<longleftrightarrow> at2 ?m (2 * j) b = 1 \<or> at2 ?m (2 * j + 1) b = 1)
        \<and> (at2 m' j b = 0 \<longleftrightarrow> \<not> (at2 ?m (2 * j) b = 1 \<or> at2 ?m (2 * j + 1) b = 1))"
    using downscale_halves_even [of ?m ?inp ?cfg ?p, OF v _ _ _ _ _ _ _ w] by auto
  have "at2 m' 0 0 = 1" "at2 m' 1 0 = 0" "at2 m' 0 1 = 1" "at2 m' 1 1 = 1"
    using e [of 0 0] e [of 1 0] e [of 0 1] e [of 1 1] by (simp_all add: at2_def)
  with v d s show ?thesis by simp
qed

text \<open>
  Claim C1 as stated covers every time dimension. At time dimension 3 (one example, valid
  mask 1, 1, 0) \<open>downscale\<close> returns no output at all, neither of time dimension 2 nor
  of time dimension 1: the pairing reshape of three elements fails.
\<close>

theorem downscale_odd_length_counterexample:
  "valid_mask \<lparr>rows2 = 3, cols2 = 1, data2 = [1, 1, 0]\<rparr>
   \<and> downscale
        \<lparr>vocab_size = 5, size_units = 1, num_layers = 1, max_gradient_norm = 1, batch_size = 1,
         learning_rate_decay_factor = 0.5, keep_prob = 1, forward_only = False\<rparr>
        \<lparr>Matrix = \<lparr>rows2 = 2, cols2 = 1, data2 = [1, 1]\<rparr>, Bias = [1]\<rparr>
        \<lparr>dim_0 = 3, dim_1 = 1, dim_2 = 1, data3 = [1, 2, 3]\<rparr>
        \<lparr>rows2 = 3, cols2 = 1, data2 = [1, 1, 0]\<rparr> = None
   \<and> downscale_mask
        \<lparr>vocab_size = 5, size_units = 1, num_layers = 1, max_gradient_norm = 1, batch_size = 1,
         learning_rate_decay_factor = 0.5, keep_prob = 1, forward_only = False\<rparr>
        \<lparr>rows2 = 3, cols2 = 1, data2 = [1, 1, 0]\<rparr> = None"
proof -
  have "valid_mask \<lparr>rows2 = 3, cols2 = 1, data2 = [1, 1, 0]\<rparr>" by code_simp
  moreover have "length (data3 (tf_transpose_102
      \<lparr>dim_0 = 3, dim_1 = 1, dim_2 = 1, data3 = [1, 2, 3 :: real]\<rparr>)) = 3"
    by (simp add: length_transpose_102)
  moreover have "length (data2 (tf_transpose \<lparr>rows2 = 3, cols2 = 1, data2 = [1, 1, 0 :: int32]\<rparr>)) = 3"
    by (simp add: tf_transpose_def length_data2_mk2)
  ultimately show ?thesis
    by (simp add: downscale_def downscale_inp_def downscale_pairs_def downscale_mask_def
        tf_reshape2_def infer_shape_def)
qed

text \<open>
  Claim C10. With an even time dimension the reshape of line 160 succeeds and row
  \<open>b * (T / 2) + j\<close> of its result is the feature vector of example \<open>b\<close> at timestep
  \<open>2j\<close> followed by the one at timestep \<open>2j + 1\<close>, and \<open>downscale\<close> computes each pooled
  feature from exactly that pair. With an odd time dimension the feature half of
  \<open>downscale\<close> fails; the reshape of line 160 itself fails when the batch size is odd,
  and when the batch size is even it succeeds with a row that joins the last timestep
  of example 0 to the first timestep of example 1.
\<close>

theorem downscale_requires_even:
  assumes B: "dim_1 inp = batch_size cfg" "0 < batch_size cfg"
    and n: "dim_2 inp = size_units cfg" "0 < size_units cfg"
    and p: "wf_linear p (2 * size_units cfg) (size_units cfg)"
  shows "(even (dim_0 inp) \<longrightarrow>
           (\<exists>inp2d. downscale_pairs cfg inp = Some inp2d
              \<and> rows2 inp2d = batch_size cfg * (dim_0 inp div 2)
              \<and> cols2 inp2d = 2 * size_units cfg
              \<and> (\<forall>b < batch_size cfg. \<forall>j < dim_0 inp div 2. \<forall>k < 2 * size_units cfg.
                    at2 inp2d (b * (dim_0 inp div 2) + j) k
                      = (if k < size_units cfg then at3 inp (2 * j) b k
                         else at3 inp (2 * j + 1) b (k - size_units cfg))))
         \<and> downscale_inp cfg p inp =
             Some (mk3 (dim_0 inp div 2) (batch_size cfg) (size_units cfg)
                     (pooled_feature p inp (size_units cfg))))
       \<and> (odd (dim_0 inp) \<longrightarrow>
           downscale_inp cfg p inp = None
         \<and> (odd (batch_size cfg) \<longrightarrow> downscale_pairs cfg inp = None)
         \<and> (even (batch_size cfg) \<longrightarrow>
              (\<exists>inp2d. downscale_pairs cfg inp = Some inp2d
                 \<and> (dim_0 inp - 1) div 2 < rows2 inp2d
                 \<and> (\<forall>k < size_units cfg.
                      at2 inp2d ((dim_0 inp - 1) div 2) k = at3 inp (dim_0 inp - 1) 0 k
                    \<and> at2 inp2d ((dim_0 inp - 1) div 2) (size_units cfg + k) = at3 inp 0 1 k))))"
proof (intro conjI impI)
  assume "even (dim_0 inp)"
  then obtain h where h: "dim_0 inp = 2 * h" by (auto elim: evenE)
  show "\<exists>inp2d. downscale_pairs cfg inp = Some inp2d
      \<and> rows2 inp2d = batch_size cfg * (dim_0 inp div 2)
      \<and> cols2 inp2d = 2 * size_units cfg
      \<and> (\<forall>b < batch_size cfg. \<forall>j < dim_0 inp div 2. \<forall>k < 2 * size_units cfg.
            at2 inp2d (b * (dim_0 inp div 2) + j) k
              = (if k < size_units cfg then at3 inp (2 * j) b k
                 else at3 inp (2 * j + 1) b (k - size_units cfg)))"
    using downscale_pairs_even [OF h n] by (simp add: h B(1) pooled_pair_def)
  show "downscale_inp cfg p inp =
      Some (mk3 (dim_0 inp div 2) (batch_size cfg) (size_units cfg)
              (pooled_feature p inp (size_units cfg)))"
    using downscale_inp_even [OF h B n p] by (simp add: h)
next
  assume "odd (dim_0 inp)"
  then show "downscale_inp cfg p inp = None"
    using B n p by (rule downscale_inp_odd)
next
  assume "odd (dim_0 inp)" "odd (batch_size cfg)"
  then show "downscale_pairs cfg inp = None"
    using n(1) by (intro downscale_pairs_odd_fails) (simp_all add: B(1))
next
  assume "odd (dim_0 inp)" "even (batch_size cfg)"
  then show "\<exists>inp2d. downscale_pairs cfg inp = Some inp2d
      \<and> (dim_0 inp - 1) div 2 < rows2 inp2d
      \<and> (\<forall>k < size_units cfg.
            at2 inp2d ((dim_0 inp - 1) div 2) k = at3 inp (dim_0 inp - 1) 0 k
          \<and> at2 inp2d ((dim_0 inp - 1) div 2) (size_units cfg + k) = at3 inp 0 1 k)"
    using B n by (intro downscale_pairs_odd_crosses) simp_all
qed

theorem downscale_requires_even_witness:
  "downscale_inp
        \<lparr>vocab_size = 5, size_units = 1, num_layers = 1, max_gradient_norm = 1, batch_size = 2,
         learning_rate_decay_factor = 0.5, keep_prob = 1, forward_only = False\<rparr>
        \<lparr>Matrix = \<lparr>rows2 = 2, cols2 = 1, data2 = [1, 1]\<rparr>, Bias = [1]\<rparr>
        \<lparr>dim_0 = 2, dim_1 = 2, dim_2 = 1, data3 = [1, 2, 3, 4]\<rparr>
     = Some (mk3 1 2 1 (pooled_feature \<lparr>Matrix = \<lparr>rows2 = 2, cols2 = 1, data2 = [1, 1]\<rparr>, Bias = [1]\<rparr>
               \<lparr>dim_0 = 2, dim_1 = 2, dim_2 = 1, data3 = [1, 2, 3, 4]\<rparr> 1))
   \<and> downscale_inp
        \<lparr>vocab_size = 5, size_units = 1, num_layers = 1, max_gradient_norm = 1, batch_size = 2,
         learning_rate_decay_factor = 0.5, keep_prob = 1, forward_only = False\<rparr>
        \<lparr>Matrix = \<lparr>rows2 = 2, cols2 = 1, data2 = [1, 1]\<rparr>, Bias = [1]\<rparr>
        \<lparr>dim_0 = 3, dim_1 = 2, dim_2 = 1, data3 = [1, 2, 3, 4, 5, 6]\<rparr> = None
   \<and> (\<exists>inp2d. downscale_pairs
        \<lparr>vocab_size = 5, size_units = 1, num_layers = 1, max_gradient_norm = 1, batch_size = 2,
         learning_rate_decay_factor = 0.5, keep_prob = 1, forward_only = False\<rparr>
        \<lparr>dim_0 = 3, dim_1 = 2, dim_2 = 1, data3 = [1, 2, 3, 4, 5, 6]\<rparr> = Some inp2d
      \<and> at2 inp2d 1 0 = 5 \<and> at2 inp2d 1 1 = 2)"
proof -
  let ?cfg = "\<lparr>vocab_size = 5, size_units = 1, num_layers = 1, max_gradient_norm = 1, batch_size = 2,
         learning_rate_decay_factor = 0.5, keep_prob = 1, forward_only = False\<rparr>"
  let ?p = "\<lparr>Matrix = \<lparr>rows2 = 2, cols2 = 1, data2 = [1, 1 :: real]\<rparr>, Bias = [1 :: real]\<rparr>"
  let ?even = "\<lparr>dim_0 = 2, dim_1 = 2, dim_2 = 1, data3 = [1, 2, 3, 4 :: real]\<rparr>"
  let ?odd = "\<lparr>dim_0 = 3, dim_1 = 2, dim_2 = 1, data3 = [1, 2, 3, 4, 5, 6 :: real]\<rparr>"
  have w: "wf_linear ?p (2 * size_units ?cfg) (size_units ?cfg)"
    by (simp add: wf_linear_def wf2_def)
  have a: "downscale_inp ?cfg ?p ?even
      = Some (mk3 1 2 1 (pooled_feature ?p ?even 1))"
    using downscale_requires_even [of ?even ?cfg ?p, OF _ _ _ _ w] by simp
  have b: "downscale_inp ?cfg ?p ?odd = None
      \<and> (\<exists>inp2d. downscale_pairs ?cfg ?odd = Some inp2d
            \<and> at2 inp2d 1 0 = 5 \<and> at2 inp2d 1 1 = 2)"
    using downscale_requires_even [of ?odd ?cfg ?p, OF _ _ _ _ w] by (simp add: at3_def) blast
  from a b show ?thesis by simp
qed

section \<open>Attention weights\<close>

lemma bdim_same: "bdim a a = Some a"
  by (simp add: bdim_def)

lemma bdim_one: "bdim a 1 = Some a" "bdim 1 a = Some a"
  by (auto simp add: bdim_def)

lemma max_list_mem: "xs \<noteq> [] \<Longrightarrow> max_list xs \<in> set xs"
proof -
  assume "xs \<noteq> []"
  then obtain y ys where xs: "xs = y # ys" by (cases xs) auto
  have "max_list xs = Max (set xs)"
    unfolding xs Max.set_eq_fold by (simp add: max_list_def)
  moreover have "Max (set xs) \<in> set xs" by (rule Max_in) (simp_all add: xs)
  ultimately show ?thesis by simp
qed

text \<open>The stabilised softmax of one column of scores.\<close>

lemma softmax_column:
  fixes s :: "nat \<Rightarrow> real"
  assumes T: "0 < T"
  defines "m \<equiv> max_list (map s [0..<T])"
  defines "S \<equiv> sum_list (map (\<lambda>t. exp (s t - m)) [0..<T])"
  shows "1 \<le> S"
    and "sum_list (map (\<lambda>t. exp (s t - m) / (1 / 10 ^ 6 + S)) [0..<T]) = S / (1 / 10 ^ 6 + S)"
    and "S / (1 / 10 ^ 6 + S) < 1"
    and "1 - 1 / 10 ^ 6 < S / (1 / 10 ^ 6 + S)"
proof -
  have "m \<in> set (map s [0..<T])"
    unfolding m_def using T by (intro max_list_mem) simp
  then obtain t0 where t0: "t0 < T" "s t0 = m" by auto
  have Ssum: "S = (\<Sum>t = 0..<T. exp (s t - m))"
    by (simp add: S_def interv_sum_list_conv_sum_set_nat)
  have "exp (s t0 - m) \<le> (\<Sum>t = 0..<T. exp (s t - m))"
    by (rule member_le_sum) (use t0 in simp_all)
  then show S1: "1 \<le> S" using t0 by (simp add: Ssum)
  show "sum_list (map (\<lambda>t. exp (s t - m) / (1 / 10 ^ 6 + S)) [0..<T]) = S / (1 / 10 ^ 6 + S)"
    by (simp add: S_def interv_sum_list_conv_sum_set_nat sum_divide_distrib)
  show "S / (1 / 10 ^ 6 + S) < 1" using S1 by simp
  have "(1 - 1 / 10 ^ 6) * (1 / 10 ^ 6 + S) < S"
    using S1 by (simp add: algebra_simps)
  then show "1 - 1 / 10 ^ 6 < S / (1 / 10 ^ 6 + S)"
    using S1 by (simp add: pos_less_divide_eq)
qed

lemma bdim_Suc0: "bdim a (Suc 0) = Some a" "bdim (Suc 0) a = Some a"
  using bdim_one [of a] by simp_all

lemma bidx_lt: "i < d \<Longrightarrow> bidx d i = i"
  by (auto simp add: bidx_def)

lemma bidx_one: "bidx 1 i = 0" "bidx (Suc 0) i = 0"
  by (simp_all add: bidx_def)

lemma tf_binop3_bcast0:
  assumes "dim_0 y = 1" "dim_1 y = dim_1 x" "dim_2 y = dim_2 x"
  shows "tf_binop3 f x y =
     Some (mk3 (dim_0 x) (dim_1 x) (dim_2 x) (\<lambda>i j l. f (at3 x i j l) (at3 y 0 j l)))"
proof -
  have "mk3 (dim_0 x) (dim_1 x) (dim_2 x) (\<lambda>i j l.
       f (at3 x (bidx (dim_0 x) i) (bidx (dim_1 x) j) (bidx (dim_2 x) l))
         (at3 y (bidx (dim_0 y) i) (bidx (dim_1 y) j) (bidx (dim_2 y) l)))
      = mk3 (dim_0 x) (dim_1 x) (dim_2 x) (\<lambda>i j l. f (at3 x i j l) (at3 y 0 j l))"
    by (rule mk3_cong) (simp add: assms bidx_lt bidx_one)
  then show ?thesis
    by (simp add: tf_binop3_def assms bdim_Suc0 bdim_same)
qed


lemma sum_list_map_upt_cong:
  "(\<And>i. i < n \<Longrightarrow> f i = g i) \<Longrightarrow> sum_list (map f [0..<n]) = sum_list (map g [0..<n])"
  by (rule arg_cong [where f = sum_list], rule map_cong) simp_all

lemma max_list_map_upt_cong:
  "(\<And>i. i < n \<Longrightarrow> f i = g i) \<Longrightarrow> max_list (map f [0..<n]) = max_list (map g [0..<n])"
  by (rule arg_cong [where f = max_list], rule map_cong) simp_all

lemma attn_weights_eq:
  assumes B: "dim_1 phi = rows2 gamma_h" and n: "dim_2 phi = cols2 gamma_h"
  shows "attn_weights phi gamma_h =
     Some (mk3 (dim_0 phi) (dim_1 phi) 1 (\<lambda>t b _.
       exp (score phi gamma_h t b - max_list (map (\<lambda>i. score phi gamma_h i b) [0..<dim_0 phi]))
       / (1 / 10 ^ 6 + sum_list (map (\<lambda>u. exp (score phi gamma_h u b
              - max_list (map (\<lambda>i. score phi gamma_h i b) [0..<dim_0 phi]))) [0..<dim_0 phi]))))"
proof -
  let ?T = "dim_0 phi" and ?B = "dim_1 phi" and ?n = "dim_2 phi"
  let ?s = "score phi gamma_h"
  let ?m = "\<lambda>b. max_list (map (\<lambda>i. ?s i b) [0..<?T])"
  define prod where "prod = mk3 ?T ?B ?n (\<lambda>i j l. at3 phi i j l * at2 gamma_h j l)"
  have p: "tf_binop3 (*) phi (expand_dims0 gamma_h) = Some prod"
    unfolding prod_def
    by (subst tf_binop3_bcast0)
       (simp_all add: expand_dims0_def B n at3_def at2_def)
  define w0 where "w0 = mk3 ?T ?B 1 (\<lambda>t b (_::nat). ?s t b)"
  have w0: "tf_reduce_sum_2_keep prod = w0"
    unfolding tf_reduce_sum_2_keep_def w0_def
    by (simp add: prod_def dims_mk3, rule mk3_cong)
       (simp add: score_def at3_mk3 cong: sum_list_map_upt_cong)
  define mx where "mx = mk3 1 ?B 1 (\<lambda>(_::nat) b (_::nat). ?m b)"
  have mx: "tf_reduce_max_0_keep w0 = mx"
    unfolding tf_reduce_max_0_keep_def mx_def
    by (simp add: w0_def dims_mk3, rule mk3_cong)
       (simp add: at3_mk3 cong: max_list_map_upt_cong)
  define diff where "diff = mk3 ?T ?B 1 (\<lambda>t b (_::nat). ?s t b - ?m b)"
  have d: "tf_binop3 (-) w0 mx = Some diff"
    unfolding diff_def
    by (subst tf_binop3_bcast0) (simp_all add: w0_def mx_def dims_mk3, rule mk3_cong, simp add: at3_mk3)
  define w1 where "w1 = mk3 ?T ?B 1 (\<lambda>t b (_::nat). exp (?s t b - ?m b))"
  have w1: "map3 exp diff = w1"
    by (simp add: diff_def w1_def map3_mk3)
  define se where "se = mk3 1 ?B 1
      (\<lambda>(_::nat) b (_::nat). 1 / 10 ^ 6 + sum_list (map (\<lambda>u. exp (?s u b - ?m b)) [0..<?T]))"
  have se: "map3 (\<lambda>s. 1 / 10 ^ 6 + s) (tf_reduce_sum_0_keep w1) = se"
    unfolding tf_reduce_sum_0_keep_def se_def
    by (simp add: w1_def dims_mk3 map3_mk3, rule mk3_cong)
       (simp add: at3_mk3 cong: sum_list_map_upt_cong)
  have r: "tf_binop3 (/) w1 se = Some (mk3 ?T ?B 1 (\<lambda>t b _.
       exp (?s t b - ?m b) / (1 / 10 ^ 6 + sum_list (map (\<lambda>u. exp (?s u b - ?m b)) [0..<?T]))))"
    by (subst tf_binop3_bcast0) (simp_all add: w1_def se_def dims_mk3, rule mk3_cong, simp add: at3_mk3)
  show ?thesis
    by (simp only: attn_weights_def p Option.bind.simps Let_def w0 mx d w1 se r)
qed

text \<open>
  Claim C2. For a non-empty encoder-time axis and operands of matching batch and
  feature sizes (any query \<open>gamma_h\<close>, hence at every decoder step) the attention weights
  exist, have shape (encoder time, batch, 1), are the exponentials of the scores minus
  the example's maximum score divided by \<open>1e-6\<close> plus the sum of those exponentials, and
  for every example their sum over the encoder-time axis lies strictly between
  \<open>1 - 1e-6\<close> and 1.
\<close>

theorem attention_weights_softmax:
  assumes T: "0 < dim_0 phi" and B: "dim_1 phi = rows2 gamma_h" and n: "dim_2 phi = cols2 gamma_h"
  shows "\<exists>w. attn_weights phi gamma_h = Some w
     \<and> dim_0 w = dim_0 phi \<and> dim_1 w = dim_1 phi \<and> dim_2 w = 1
     \<and> (\<forall>b < dim_1 phi.
          (\<forall>t < dim_0 phi. at3 w t b 0 =
              exp (score phi gamma_h t b - max_list (map (\<lambda>i. score phi gamma_h i b) [0..<dim_0 phi]))
              / (1 / 10 ^ 6 + sum_list (map (\<lambda>u. exp (score phi gamma_h u b
                    - max_list (map (\<lambda>i. score phi gamma_h i b) [0..<dim_0 phi]))) [0..<dim_0 phi])))
        \<and> sum_list (map (\<lambda>t. at3 w t b 0) [0..<dim_0 phi]) < 1
        \<and> 1 - 1 / 10 ^ 6 < sum_list (map (\<lambda>t. at3 w t b 0) [0..<dim_0 phi]))"
proof -
  let ?T = "dim_0 phi"
  let ?m = "\<lambda>b. max_list (map (\<lambda>i. score phi gamma_h i b) [0..<?T])"
  let ?S = "\<lambda>b. sum_list (map (\<lambda>u. exp (score phi gamma_h u b - ?m b)) [0..<?T])"
  let ?e = "\<lambda>t b. exp (score phi gamma_h t b - ?m b) / (1 / 10 ^ 6 + ?S b)"
  let ?w = "mk3 ?T (dim_1 phi) 1 (\<lambda>t b (_::nat). ?e t b)"
  have w: "attn_weights phi gamma_h = Some ?w"
    using B n by (rule attn_weights_eq)
  have entry: "at3 ?w t b 0 = ?e t b" if "t < ?T" "b < dim_1 phi" for t b
    using that by (simp add: at3_mk3)
  have sums: "sum_list (map (\<lambda>t. at3 ?w t b 0) [0..<?T]) < 1
      \<and> 1 - 1 / 10 ^ 6 < sum_list (map (\<lambda>t. at3 ?w t b 0) [0..<?T])"
    if b: "b < dim_1 phi" for b
  proof -
    have "sum_list (map (\<lambda>t. at3 ?w t b 0) [0..<?T]) = sum_list (map (\<lambda>t. ?e t b) [0..<?T])"
      by (rule sum_list_map_upt_cong) (rule entry, simp_all add: b)
    also have "\<dots> = ?S b / (1 / 10 ^ 6 + ?S b)"
      using T by (rule softmax_column(2))
    finally show ?thesis
      using softmax_column(3) [OF T, of "\<lambda>t. score phi gamma_h t b"]
        softmax_column(4) [OF T, of "\<lambda>t. score phi gamma_h t b"] by simp
  qed
  show ?thesis
    unfolding w using entry sums by (simp add: dims_mk3)
qed

theorem attention_weights_softmax_witness:
  "\<exists>w. attn_weights \<lparr>dim_0 = 2, dim_1 = 1, dim_2 = 1, data3 = [1, 2]\<rparr>
            \<lparr>rows2 = 1, cols2 = 1, data2 = [3]\<rparr> = Some w
     \<and> sum_list (map (\<lambda>t. at3 w t 0 0) [0..<2]) < 1
     \<and> 1 - 1 / 10 ^ 6 < sum_list (map (\<lambda>t. at3 w t 0 0) [0..<2])"
  using attention_weights_softmax [of "\<lparr>dim_0 = 2, dim_1 = 1, dim_2 = 1, data3 = [1, 2]\<rparr>"
      "\<lparr>rows2 = 1, cols2 = 1, data2 = [3]\<rparr>"]
  by simp blast

section \<open>Recurrences and the bidirectional layer\<close>

lemma rev_take_nth:
  assumes "n \<le> length col" "t < length col"
  shows "(rev (take n col) @ drop n col) ! t = (if t < n then col ! (n - 1 - t) else col ! t)"
proof (cases "t < n")
  case True
  then have "(rev (take n col) @ drop n col) ! t = rev (take n col) ! t"
    using assms(1) by (simp add: nth_append)
  also have "\<dots> = take n col ! (n - Suc t)"
    using True assms(1) by (simp add: rev_nth)
  also have "\<dots> = col ! (n - 1 - t)" using True by simp
  finally show ?thesis using True by simp
next
  case False
  then show ?thesis using assms by (simp add: nth_append)
qed

lemma tf_binop3_same:
  assumes "dim_0 y = dim_0 x" "dim_1 y = dim_1 x" "dim_2 y = dim_2 x"
  shows "tf_binop3 f x y =
     Some (mk3 (dim_0 x) (dim_1 x) (dim_2 x) (\<lambda>i j l. f (at3 x i j l) (at3 y i j l)))"
proof -
  have "mk3 (dim_0 x) (dim_1 x) (dim_2 x) (\<lambda>i j l.
       f (at3 x (bidx (dim_0 x) i) (bidx (dim_1 x) j) (bidx (dim_2 x) l))
         (at3 y (bidx (dim_0 y) i) (bidx (dim_1 y) j) (bidx (dim_2 y) l)))
      = mk3 (dim_0 x) (dim_1 x) (dim_2 x) (\<lambda>i j l. f (at3 x i j l) (at3 y i j l))"
    by (rule mk3_cong) (simp add: assms bidx_lt)
  then show ?thesis
    by (simp add: tf_binop3_def assms bdim_same)
qed

lemma rnn_loop_length:
  "rnn_loop cell lens time xs state = Some (outs, final) \<Longrightarrow> length outs = length xs"
proof (induction xs arbitrary: time state outs final)
  case Nil
  then show ?case by simp
next
  case (Cons x xs)
  then show ?case
    by (auto simp add: bind_eq_Some_conv)
qed

lemma dynamic_rnn_dims:
  assumes "dynamic_rnn cell n inputs lens = Some (outputs, final)"
  shows "dim_0 outputs = dim_0 inputs \<and> dim_1 outputs = dim_1 inputs \<and> dim_2 outputs = n
     \<and> wf3 outputs \<and> length lens = dim_1 inputs"
  using assms
  by (auto simp add: dynamic_rnn_def stack_def dims_mk3 wf3_mk3 bind_eq_Some_conv
      dest: rnn_loop_length split: if_splits)

lemma tf_reverse_sequence_entry:
  assumes "tf_reverse_sequence x seq_lengths = Some y"
  shows "dim_0 y = dim_0 x \<and> dim_1 y = dim_1 x \<and> dim_2 y = dim_2 x
     \<and> (\<forall>t < dim_0 x. \<forall>b < dim_1 x. \<forall>l < dim_2 x.
          at3 y t b l = (if int t < seq_lengths ! b then at3 x (nat (seq_lengths ! b) - 1 - t) b l
                         else at3 x t b l))"
proof -
  have len: "length seq_lengths = dim_1 x"
    and rng: "\<And>n. n \<in> set seq_lengths \<Longrightarrow> 0 \<le> n \<and> n \<le> int (dim_0 x)"
    using assms by (auto simp add: tf_reverse_sequence_def list_ex_iff split: if_splits)
  have y: "y = mk3 (dim_0 x) (dim_1 x) (dim_2 x) (\<lambda>t b l.
        (let col = map (\<lambda>i. at3 x i b l) [0..<dim_0 x];
             n = nat (seq_lengths ! b)
         in (rev (take n col) @ drop n col) ! t))"
    using assms by (simp add: tf_reverse_sequence_def split: if_splits)
  have "at3 y t b l = (if int t < seq_lengths ! b then at3 x (nat (seq_lengths ! b) - 1 - t) b l
                         else at3 x t b l)"
    if t: "t < dim_0 x" and b: "b < dim_1 x" and l: "l < dim_2 x" for t b l
  proof -
    let ?n = "nat (seq_lengths ! b)" and ?col = "map (\<lambda>i. at3 x i b l) [0..<dim_0 x]"
    have r: "0 \<le> seq_lengths ! b \<and> seq_lengths ! b \<le> int (dim_0 x)"
      using rng [of "seq_lengths ! b"] b len by simp
    then have n: "?n \<le> length ?col" by (simp add: nat_le_iff)
    have "at3 y t b l = (rev (take ?n ?col) @ drop ?n ?col) ! t"
      unfolding y using t b l by (simp add: at3_mk3 Let_def)
    also have "\<dots> = (if t < ?n then ?col ! (?n - 1 - t) else ?col ! t)"
      using n t by (intro rev_take_nth) simp_all
    also have "\<dots> = (if int t < seq_lengths ! b then at3 x (?n - 1 - t) b l else at3 x t b l)"
      using r t by auto
    finally show ?thesis .
  qed
  then show ?thesis by (simp add: y dims_mk3)
qed

lemma tf_reverse_sequence_ok:
  assumes "length seq_lengths = dim_1 x"
    and "\<And>b. b < dim_1 x \<Longrightarrow> 0 \<le> seq_lengths ! b \<and> seq_lengths ! b \<le> int (dim_0 x)"
  shows "\<exists>y. tf_reverse_sequence x seq_lengths = Some y"
proof -
  have "\<not> (n < 0 \<or> int (dim_0 x) < n)" if h: "n \<in> set seq_lengths" for n
  proof -
    obtain b where "b < dim_1 x" "n = seq_lengths ! b"
      using h assms(1) by (auto simp add: in_set_conv_nth)
    then show ?thesis using assms(2) [of b] by (simp add: not_less)
  qed
  then have "\<not> list_ex (\<lambda>n. n < 0 \<or> int (dim_0 x) < n) seq_lengths"
    unfolding list_ex_iff by blast
  then show ?thesis using assms(1) by (simp add: tf_reverse_sequence_def)
qed

text \<open>
  Claim C5. When the two recurrences of a bidirectional layer return (with states of
  one shape) and every length lies between 0 and the time dimension, the layer returns,
  and its output at time \<open>t\<close> for example \<open>b\<close> is the forward output there plus the
  backward output of that example read at position \<open>length - 1 - t\<close> when \<open>t\<close> is below
  the example's length, and at position \<open>t\<close> itself otherwise.
\<close>

theorem bidirectional_rnn_sum:
  assumes fw: "dynamic_rnn cell_fw n inputs lengths = Some (output_fw, state_fw)"
    and bw: "dynamic_rnn cell_bw n inputs lengths = Some (output_bw, state_bw)"
    and st: "rows2 state_fw = rows2 state_bw" "cols2 state_fw = cols2 state_bw"
    and len: "\<forall>b < dim_1 inputs. 0 \<le> sint (lengths ! b) \<and> sint (lengths ! b) \<le> int (dim_0 inputs)"
  shows "\<exists>outputs output_state.
       bidirectional_rnn cell_fw cell_bw n inputs lengths = Some (outputs, output_state)
     \<and> dim_0 outputs = dim_0 inputs \<and> dim_1 outputs = dim_1 inputs \<and> dim_2 outputs = n
     \<and> (\<forall>t < dim_0 inputs. \<forall>b < dim_1 inputs. \<forall>l < n.
          at3 outputs t b l = at3 output_fw t b l +
            (if int t < sint (lengths ! b)
             then at3 output_bw (nat (sint (lengths ! b)) - 1 - t) b l
             else at3 output_bw t b l))"
proof -
  have df: "dim_0 output_fw = dim_0 inputs" "dim_1 output_fw = dim_1 inputs" "dim_2 output_fw = n"
    and db: "dim_0 output_bw = dim_0 inputs" "dim_1 output_bw = dim_1 inputs" "dim_2 output_bw = n"
    and ll: "length lengths = dim_1 inputs"
    using dynamic_rnn_dims [OF fw] dynamic_rnn_dims [OF bw] by simp_all
  obtain rv where rv: "tf_reverse_sequence output_bw (tf_to_int64 lengths) = Some rv"
    using tf_reverse_sequence_ok [of "tf_to_int64 lengths" output_bw] len ll
    by (auto simp add: tf_to_int64_def db)
  note e = tf_reverse_sequence_entry [OF rv]
  let ?out = "mk3 (dim_0 inputs) (dim_1 inputs) n (\<lambda>i j l. at3 output_fw i j l + at3 rv i j l)"
  have add: "tf_add3 output_fw rv = Some ?out"
    unfolding tf_add3_def using e by (subst tf_binop3_same) (simp_all add: df db)
  obtain os where os: "tf_add2 state_fw state_bw = Some os"
    using st by (simp add: tf_add2_def)
  have b: "bidirectional_rnn cell_fw cell_bw n inputs lengths = Some (?out, os)"
    by (simp add: bidirectional_rnn_def fw bw rv add os)
  have "at3 ?out t b l = at3 output_fw t b l +
            (if int t < sint (lengths ! b)
             then at3 output_bw (nat (sint (lengths ! b)) - 1 - t) b l
             else at3 output_bw t b l)"
    if "t < dim_0 inputs" "b < dim_1 inputs" "l < n" for t b l
    using that e ll by (simp add: at3_mk3 db tf_to_int64_def)
  with b show ?thesis by (simp add: dims_mk3)
qed

lemma rnn_step_GRU:
  "rnn_step (GRUCell_call p n) lens time x state =
     Some (mk2 (rows2 x) n (\<lambda>b l. if sint (lens ! b) \<le> int time then 0
              else GRUCell_row p n (row x b) (row state b) ! l),
           mk2 (rows2 x) n (\<lambda>b l. if sint (lens ! b) \<le> int time then at2 state b l
              else GRUCell_row p n (row x b) (row state b) ! l))"
proof -
  have "mk2 (rows2 x) n (\<lambda>b l. if sint (lens ! b) \<le> int time then c b l
        else at2 (mk2 (rows2 x) n (\<lambda>b l. GRUCell_row p n (row x b) (row state b) ! l)) b l)
      = mk2 (rows2 x) n (\<lambda>b l. if sint (lens ! b) \<le> int time then c b l
        else GRUCell_row p n (row x b) (row state b) ! l)" for c :: "nat \<Rightarrow> nat \<Rightarrow> real"
    by (rule mk2_cong) (simp add: at2_mk2)
  then show ?thesis
    by (simp add: rnn_step_def GRUCell_call_def Let_def dims_mk2)
qed

lemma rnn_loop_GRU:
  "\<exists>outs final. rnn_loop (GRUCell_call p n) lens time xs state = Some (outs, final)
     \<and> rows2 final = (if xs = [] then rows2 state else rows2 (last xs))
     \<and> cols2 final = (if xs = [] then cols2 state else n)"
proof (induction xs arbitrary: time state)
  case Nil
  then show ?case by simp
next
  case (Cons x xs)
  obtain o1 s1 where s: "rnn_step (GRUCell_call p n) lens time x state = Some (o1, s1)"
    and d: "rows2 s1 = rows2 x" "cols2 s1 = n"
    by (simp add: rnn_step_GRU dims_mk2)
  from Cons.IH [of "Suc time" s1] d s show ?case
    by (auto simp add: bind_eq_Some_conv)
qed

lemma dynamic_rnn_GRU:
  assumes "length lens = dim_1 inputs"
  shows "\<exists>outputs final. dynamic_rnn (GRUCell_call p n) n inputs lens = Some (outputs, final)
     \<and> rows2 final = dim_1 inputs \<and> cols2 final = n"
proof -
  let ?xs = "map (time_slice inputs) [0..<dim_0 inputs]"
  obtain outs final where
    l: "rnn_loop (GRUCell_call p n) lens 0 ?xs (zeros2 (dim_1 inputs) n) = Some (outs, final)"
    and r: "rows2 final = (if ?xs = [] then rows2 (zeros2 (dim_1 inputs) n) else rows2 (last ?xs))"
    and c: "cols2 final = (if ?xs = [] then cols2 (zeros2 (dim_1 inputs) n) else n)"
    using rnn_loop_GRU [of p n lens 0 ?xs "zeros2 (dim_1 inputs) n"] by blast
  have "rows2 final = dim_1 inputs"
    using r by (cases "dim_0 inputs") (simp_all add: zeros2_def dims_mk2 time_slice_def)
  moreover have "cols2 final = n"
    using c by (simp add: zeros2_def dims_mk2)
  ultimately show ?thesis
    using l assms by (simp add: dynamic_rnn_def)
qed

theorem bidirectional_rnn_sum_witness:
  "\<exists>outputs output_state.
     bidirectional_rnn
       (GRUCell_call \<lparr>Gates = \<lparr>Matrix = \<lparr>rows2 = 2, cols2 = 2, data2 = [0, 0, 0, 0]\<rparr>, Bias = [1, 1]\<rparr>,
                      Candidate = \<lparr>Matrix = \<lparr>rows2 = 2, cols2 = 1, data2 = [1, 0]\<rparr>, Bias = [0]\<rparr>\<rparr> 1)
       (GRUCell_call \<lparr>Gates = \<lparr>Matrix = \<lparr>rows2 = 2, cols2 = 2, data2 = [0, 0, 0, 0]\<rparr>, Bias = [1, 1]\<rparr>,
                      Candidate = \<lparr>Matrix = \<lparr>rows2 = 2, cols2 = 1, data2 = [2, 1]\<rparr>, Bias = [0]\<rparr>\<rparr> 1)
       1 \<lparr>dim_0 = 3, dim_1 = 2, dim_2 = 1, data3 = [1, 2, 3, 4, 5, 6]\<rparr> [2, 3]
       = Some (outputs, output_state)
     \<and> dim_0 outputs = 3 \<and> dim_1 outputs = 2 \<and> dim_2 outputs = 1"
proof -
  let ?pf = "\<lparr>Gates = \<lparr>Matrix = \<lparr>rows2 = 2, cols2 = 2, data2 = [0, 0, 0, 0]\<rparr>, Bias = [1, 1]\<rparr>,
                      Candidate = \<lparr>Matrix = \<lparr>rows2 = 2, cols2 = 1, data2 = [1, 0]\<rparr>, Bias = [0]\<rparr>\<rparr>"
  let ?pb = "\<lparr>Gates = \<lparr>Matrix = \<lparr>rows2 = 2, cols2 = 2, data2 = [0, 0, 0, 0]\<rparr>, Bias = [1, 1]\<rparr>,
                      Candidate = \<lparr>Matrix = \<lparr>rows2 = 2, cols2 = 1, data2 = [2, 1]\<rparr>, Bias = [0]\<rparr>\<rparr>"
  let ?fw = "GRUCell_call ?pf 1"
  let ?bw = "GRUCell_call ?pb 1"
  let ?inp = "\<lparr>dim_0 = 3, dim_1 = 2, dim_2 = 1, data3 = [1, 2, 3, 4, 5, 6 :: real]\<rparr>"
  let ?len = "[2, 3 :: int32]"
  obtain ofw sfw where fw: "dynamic_rnn ?fw 1 ?inp ?len = Some (ofw, sfw)"
    and sf: "rows2 sfw = 2" "cols2 sfw = 1"
    using dynamic_rnn_GRU [of ?len ?inp ?pf 1] by auto
  obtain obw sbw where bw: "dynamic_rnn ?bw 1 ?inp ?len = Some (obw, sbw)"
    and sb: "rows2 sbw = 2" "cols2 sbw = 1"
    using dynamic_rnn_GRU [of ?len ?inp ?pb 1] by auto
  have len: "\<forall>b < dim_1 ?inp. 0 \<le> sint (?len ! b) \<and> sint (?len ! b) \<le> int (dim_0 ?inp)"
    by (simp add: less_Suc_eq numeral_2_eq_2)
  from bidirectional_rnn_sum [OF fw bw _ _ len] sf sb show ?thesis
    by simp blast
qed

section \<open>The loss\<close>

lemma sum_list_flat:
  "sum_list (map (\<lambda>k. f (k div c) (k mod c)) [0..<r * c])
     = sum_list (map (\<lambda>i. sum_list (map (f i) [0..<c])) [0..<r])" for f :: "nat \<Rightarrow> nat \<Rightarrow> real"
proof (induction r)
  case 0
  then show ?case by simp
next
  case (Suc r)
  have "[0..<Suc r * c] = [0..<r * c + c]" by (simp add: add.commute)
  also have "\<dots> = [0..<r * c] @ [r * c..<r * c + c]"
    by (rule upt_add_eq_append) simp
  also have "[r * c..<r * c + c] = map (\<lambda>j. j + r * c) [0..<c]"
    using map_add_upt [of "r * c" c] by (simp add: add.commute)
  finally have split: "[0..<Suc r * c] = [0..<r * c] @ map (\<lambda>j. j + r * c) [0..<c]" .
  have "map (\<lambda>k. f (k div c) (k mod c)) (map (\<lambda>j. j + r * c) [0..<c]) = map (f r) [0..<c]"
    unfolding map_map by (rule map_cong) simp_all
  then have "sum_list (map (\<lambda>k. f (k div c) (k mod c)) [0..<Suc r * c])
      = sum_list (map (\<lambda>k. f (k div c) (k mod c)) [0..<r * c]) + sum_list (map (f r) [0..<c])"
    unfolding split by (simp only: map_append sum_list_append)
  then show ?case using Suc by simp
qed

lemma infer_first:
  "infer_shape [- 1, int b, int c] len =
     (if b * c = 0 \<or> len mod (b * c) \<noteq> 0 then None else Some [len div (b * c), b, c])"
  by (simp add: infer_shape_def)

lemma tf_reshape3_first:
  "tf_reshape3 (- 1) (int b) (int c) xs =
     (if b * c = 0 \<or> length xs mod (b * c) \<noteq> 0 then None
      else Some \<lparr>dim_0 = length xs div (b * c), dim_1 = b, dim_2 = c, data3 = xs\<rparr>)"
  by (simp add: tf_reshape3_def infer_first)

lemma tf_slice_pad_flat:
  fixes x :: "int32 tensor2"
  assumes T: "0 < rows2 x"
  shows "tf_slice_from_row1 x = Some (mk2 (rows2 x - 1) (cols2 x) (\<lambda>i j. at2 x (i + 1) j))"
    and "data2 (tf_pad_row_after (mk2 (rows2 x - 1) (cols2 x) (\<lambda>i j. at2 x (i + 1) j)))
         = map (\<lambda>k. shift_left_pad x (k div cols2 x) (k mod cols2 x)) [0..<rows2 x * cols2 x]"
proof -
  show "tf_slice_from_row1 x = Some (mk2 (rows2 x - 1) (cols2 x) (\<lambda>i j. at2 x (i + 1) j))"
    using T by (simp add: tf_slice_from_row1_def)
  let ?s = "mk2 (rows2 x - 1) (cols2 x) (\<lambda>i j. at2 x (i + 1) j)"
  have e: "rows2 x - 1 + 1 = rows2 x" using T by simp
  have "tf_pad_row_after ?s = mk2 (rows2 x) (cols2 x) (\<lambda>i j. if i < rows2 x - 1 then at2 ?s i j else 0)"
    unfolding tf_pad_row_after_def dims_mk2 e ..
  also have "\<dots> = mk2 (rows2 x) (cols2 x) (shift_left_pad x)"
  proof (rule mk2_cong)
    fix i j assume "i < rows2 x" "j < cols2 x"
    then show "(if i < rows2 x - 1 then at2 ?s i j else 0) = shift_left_pad x i j"
      by (auto simp add: at2_mk2 shift_left_pad_def)
  qed
  finally show "data2 (tf_pad_row_after ?s)
      = map (\<lambda>k. shift_left_pad x (k div cols2 x) (k mod cols2 x)) [0..<rows2 x * cols2 x]"
    by (simp add: mk2_def)
qed

lemma map2_mult_upt:
  "map2 (*) (map f [0..<n]) (map g [0..<n]) = map (\<lambda>k. f k * g k) [0..<n]"
  for f g :: "nat \<Rightarrow> real"
  by (simp add: map2_map_map)

lemma logits_entry:
  assumes d: "dim_1 d = b" "dim_2 d = n" and b: "0 < b" and k: "k < t * b"
  shows "at2 (linear p \<lparr>rows2 = t * b, cols2 = n, data2 = data3 d\<rparr>) k j
     = (if j < cols2 (Matrix p) then logit p d (k div b) (k mod b) j
        else at2 (linear p \<lparr>rows2 = t * b, cols2 = n, data2 = data3 d\<rparr>) k j)"
proof (cases "j < cols2 (Matrix p)")
  case True
  have "at2 \<lparr>rows2 = t * b, cols2 = n, data2 = data3 d\<rparr> k l = at3 d (k div b) (k mod b) l" for l
    by (simp add: at2_def at3_def d)
  then show ?thesis
    using True k by (simp add: linear_def at2_mk2 logit_def d)
next
  case False
  then show ?thesis by simp
qed

lemma setup_loss_eq:
  assumes d: "wf3 d" "dim_0 d = rows2 (target_tokens batch)" "dim_1 d = batch_size cfg"
      "dim_2 d = size_units cfg"
    and tok: "cols2 (target_tokens batch) = batch_size cfg"
    and msk: "rows2 (target_mask batch) = rows2 (target_tokens batch)"
      "cols2 (target_mask batch) = batch_size cfg"
    and pos: "0 < rows2 (target_tokens batch)" "0 < batch_size cfg" "0 < size_units cfg"
    and p: "wf_linear p (size_units cfg) (vocab_size cfg)"
    and lab: "\<forall>t < rows2 (target_tokens batch). \<forall>b < batch_size cfg.
        0 \<le> sint (shift_left_pad (target_tokens batch) t b)
        \<and> sint (shift_left_pad (target_tokens batch) t b) < int (vocab_size cfg)"
  shows "\<exists>outputs. setup_loss cfg p d batch = Some (masked_loss cfg p d batch, outputs)
     \<and> dim_0 outputs = rows2 (target_tokens batch) \<and> dim_1 outputs = batch_size cfg
     \<and> dim_2 outputs = vocab_size cfg"
proof -
  let ?T = "rows2 (target_tokens batch)" and ?B = "batch_size cfg" and ?n = "size_units cfg"
  let ?V = "vocab_size cfg"
  let ?tok = "target_tokens batch" and ?msk = "target_mask batch"
  let ?N = "?T * ?B"
  have V0: "0 < ?V" using lab pos by fastforce
  have cw: "cols2 (Matrix p) = ?V" using p by (simp add: wf_linear_def)
  have divmod: "k div ?B < ?T \<and> k mod ?B < ?B" if "k < ?N" for k
    using that pos(2) by (simp add: less_mult_imp_div_less)
  \<comment> \<open>line 141\<close>
  define do2d where "do2d = \<lparr>rows2 = ?N, cols2 = ?n, data2 = data3 d\<rparr>"
  have lend: "length (data3 d) = ?N * ?n" using d by (simp add: wf3_def)
  have r1: "tf_reshape2 (- 1) (int ?n) (data3 d) = Some do2d"
    unfolding tf_reshape2_rows lend using pos(3) by (simp add: do2d_def)
  \<comment> \<open>lines 142 to 144\<close>
  define logits2d where "logits2d = linear p do2d"
  have ldim: "rows2 logits2d = ?N" "cols2 logits2d = ?V"
    by (simp_all add: logits2d_def linear_def dims_mk2 do2d_def cw)
  define outputs where "outputs =
      \<lparr>dim_0 = ?T, dim_1 = ?B, dim_2 = ?V, data3 = data2 (tf_softmax logits2d)\<rparr>"
  have lens: "length (data2 (tf_softmax logits2d)) = ?T * (?B * ?V)"
    by (simp add: tf_softmax_def length_data2_mk2 ldim)
  have r2: "tf_reshape3 (- 1) (int ?B) (int ?V) (data2 (tf_softmax logits2d)) = Some outputs"
    unfolding tf_reshape3_first lens using pos(2) V0 by (simp add: outputs_def)
  \<comment> \<open>lines 146 to 150\<close>
  define labels1d where "labels1d = map (\<lambda>k. shift_left_pad ?tok (k div ?B) (k mod ?B)) [0..<?N]"
  define mask1d where "mask1d = map (\<lambda>k. shift_left_pad ?msk (k div ?B) (k mod ?B)) [0..<?N]"
  note st = tf_slice_pad_flat [of ?tok, OF pos(1), unfolded tok, folded labels1d_def]
  have pm: "0 < rows2 ?msk" using pos(1) msk(1) by simp
  note sm = tf_slice_pad_flat [of ?msk, OF pm, unfolded msk, folded mask1d_def]
  \<comment> \<open>line 151\<close>
  have inr: "0 \<le> sint y \<and> sint y < int ?V" if "y \<in> set labels1d" for y
    using that lab divmod by (auto simp add: labels1d_def)
  then have "\<not> list_ex (\<lambda>y. sint y < 0 \<or> int (cols2 logits2d) \<le> sint y) labels1d"
    unfolding list_ex_iff ldim by (auto simp add: not_less not_le)
  then have x: "sparse_softmax_cross_entropy_with_logits logits2d labels1d =
      Some (map (\<lambda>i. ln (sum_list (map (\<lambda>j. exp (at2 logits2d i j)) [0..<?V]))
                      - at2 logits2d i (nat (sint (labels1d ! i)))) [0..<?N])"
    by (simp add: sparse_softmax_cross_entropy_with_logits_def ldim labels1d_def)
  define F where "F = (\<lambda>t b. cross_entropy (logit p d t b) ?V (nat (sint (shift_left_pad ?tok t b)))
         * real_of_int (sint (shift_left_pad ?msk t b)))"
  define losses1d where "losses1d = map (\<lambda>k. F (k div ?B) (k mod ?B)) [0..<?N]"
  have fl: "tf_to_float mask1d
      = map (\<lambda>k. real_of_int (sint (shift_left_pad ?msk (k div ?B) (k mod ?B)))) [0..<?N]"
    by (simp add: tf_to_float_def mask1d_def o_def)
  have trm: "(ln (sum_list (map (\<lambda>j. exp (at2 logits2d k j)) [0..<?V]))
                      - at2 logits2d k (nat (sint (labels1d ! k))))
        * real_of_int (sint (shift_left_pad ?msk (k div ?B) (k mod ?B)))
      = F (k div ?B) (k mod ?B)" if k: "k < ?N" for k
  proof -
    have e: "at2 logits2d k j = logit p d (k div ?B) (k mod ?B) j" if "j < ?V" for j
      using logits_entry [of d ?B ?n k ?T p j] that k d pos(2)
      by (simp add: logits2d_def do2d_def cw)
    have lk: "labels1d ! k = shift_left_pad ?tok (k div ?B) (k mod ?B)"
      using k by (simp add: labels1d_def)
    have "nat (sint (labels1d ! k)) < ?V"
      using lab divmod [OF k] unfolding lk by (simp add: nat_less_iff)
    then have "at2 logits2d k (nat (sint (labels1d ! k)))
        = logit p d (k div ?B) (k mod ?B) (nat (sint (labels1d ! k)))"
      by (rule e)
    moreover have "sum_list (map (\<lambda>j. exp (at2 logits2d k j)) [0..<?V])
        = sum_list (map (\<lambda>j. exp (logit p d (k div ?B) (k mod ?B) j)) [0..<?V])"
      by (rule sum_list_map_upt_cong) (simp add: e)
    ultimately show ?thesis by (simp add: F_def cross_entropy_def lk)
  qed
  have "map2 (*) (map (\<lambda>i. ln (sum_list (map (\<lambda>j. exp (at2 logits2d i j)) [0..<?V]))
                      - at2 logits2d i (nat (sint (labels1d ! i)))) [0..<?N]) (tf_to_float mask1d)
      = losses1d"
    unfolding fl map2_mult_upt losses1d_def by (rule map_cong [OF refl]) (rule trm, simp)
  then have m: "tf_mul1 (map (\<lambda>i. ln (sum_list (map (\<lambda>j. exp (at2 logits2d i j)) [0..<?V]))
                      - at2 logits2d i (nat (sint (labels1d ! i)))) [0..<?N]) (tf_to_float mask1d)
      = Some losses1d"
    by (simp add: tf_mul1_def fl)
  \<comment> \<open>lines 152 and 153\<close>
  have r3: "tf_reshape2 (- 1) (int ?B) losses1d
      = Some \<lparr>rows2 = ?T, cols2 = ?B, data2 = losses1d\<rparr>"
    unfolding tf_reshape2_rows using pos(2) by (simp add: losses1d_def)
  have total: "sum_list losses1d / real ?B = masked_loss cfg p d batch"
    unfolding losses1d_def sum_list_flat by (simp add: masked_loss_def F_def)
  have "setup_loss cfg p d batch = Some (masked_loss cfg p d batch, outputs)"
    unfolding setup_loss_def
    by (simp only: r1 Option.bind.simps Let_def logits2d_def [symmetric] r2 st sm x m r3
        tensor2.simps total)
  then show ?thesis by (simp add: outputs_def)
qed

section \<open>Tokens at masked positions\<close>


































section \<open>The forward pass returns\<close>








text \<open>
  Claim C4. For a decoder output and target tensors of matching shapes (at least one
  timestep, every shifted target a label within the vocabulary) \<open>setup_loss\<close> returns
  as its loss \<open>masked_loss\<close>: the cross-entropy of every position against the targets
  shifted left by one timestep and padded with a zero row, multiplied by the mask
  shifted and padded the same way, summed over all positions and divided by the batch
  size.
\<close>

theorem setup_loss_masked_sum:
  assumes "wf3 d" and "dim_0 d = rows2 (target_tokens batch)" and "dim_1 d = batch_size cfg"
    and "dim_2 d = size_units cfg"
    and "cols2 (target_tokens batch) = batch_size cfg"
    and "rows2 (target_mask batch) = rows2 (target_tokens batch)"
    and "cols2 (target_mask batch) = batch_size cfg"
    and "0 < rows2 (target_tokens batch)" and "0 < batch_size cfg" and "0 < size_units cfg"
    and "wf_linear p (size_units cfg) (vocab_size cfg)"
    and "\<forall>t < rows2 (target_tokens batch). \<forall>b < batch_size cfg.
        0 \<le> sint (shift_left_pad (target_tokens batch) t b)
        \<and> sint (shift_left_pad (target_tokens batch) t b) < int (vocab_size cfg)"
  shows "\<exists>outputs. setup_loss cfg p d batch = Some (masked_loss cfg p d batch, outputs)
     \<and> dim_0 outputs = rows2 (target_tokens batch) \<and> dim_1 outputs = batch_size cfg
     \<and> dim_2 outputs = vocab_size cfg"
  using assms by (rule setup_loss_eq)

theorem setup_loss_masked_sum_witness:
  "\<exists>outputs. setup_loss example_config (Logistic example_params)
       \<lparr>dim_0 = 2, dim_1 = 1, dim_2 = 1, data3 = [1, 2]\<rparr> example_batch
     = Some (masked_loss example_config (Logistic example_params)
       \<lparr>dim_0 = 2, dim_1 = 1, dim_2 = 1, data3 = [1, 2]\<rparr> example_batch, outputs)"
proof -
  have "\<forall>t < rows2 (target_tokens example_batch). \<forall>b < batch_size example_config.
        0 \<le> sint (shift_left_pad (target_tokens example_batch) t b)
        \<and> sint (shift_left_pad (target_tokens example_batch) t b) < int (vocab_size example_config)"
    by (simp add: example_batch_def example_config_def shift_left_pad_def at2_def)
  from setup_loss_masked_sum [of "\<lparr>dim_0 = 2, dim_1 = 1, dim_2 = 1, data3 = [1, 2]\<rparr>"
      example_batch example_config "Logistic example_params", OF _ _ _ _ _ _ _ _ _ _ _ this]
  show ?thesis
    by (simp add: example_batch_def example_config_def example_params_def wf3_def
        wf_linear_def wf2_def) blast
qed

end
